theory Spec2Isabelle
  imports Main "HOL-Library.Char_ord" "HOL-Library.List_Lexorder"
begin

section \<open>Data model\<close>

text \<open>
  The booking page (\<^verbatim>\<open>js/script.js\<close>) and the admin panel (\<^verbatim>\<open>js/admin.js\<close>) keep
  \<^verbatim>\<open>this.availability\<close>, an object from date strings to day records
  \<^verbatim>\<open>{ available, timeSlots, closed }\<close>. Every field of a day record may be missing
  (\<^verbatim>\<open>confirmAddTimeSlot\<close> and \<^verbatim>\<open>removeTimeSlot\<close> write records without \<^verbatim>\<open>closed\<close>),
  so each field is an option, \<open>None\<close> standing for \<^verbatim>\<open>undefined\<close>.
\<close>

record dayInfo =
  available :: "bool option"
  timeSlots :: "string list option"
  closed :: "bool option"

type_synonym availability = "string \<rightharpoonup> dayInfo"

text \<open>
  The entries of \<^verbatim>\<open>this.existingAppointments\<close> and \<^verbatim>\<open>this.appointments\<close>: the fields
  the slot logic reads are \<^verbatim>\<open>date\<close>, \<^verbatim>\<open>time\<close> and \<^verbatim>\<open>status\<close>; statuses are plain strings
  in the source and stay strings here.
\<close>

record customer =
  name :: "string option"
  email :: "string option"
  phone :: "string option"

record slotRef =
  date :: string
  time :: string
  status :: string

record appointment = slotRef +
  apt_id :: string
  apt_customer :: customer
  service :: string
  price :: string
  duration :: nat
  includeInAnalytics :: bool
  created_at :: string
  updated_at :: string

section \<open>Slot resolver (\<^verbatim>\<open>BookingSystem\<close> in js/script.js)\<close>

text \<open>\<^verbatim>\<open>x || []\<close> on an array-valued field that may be undefined.\<close>

definition or_empty :: "'a list option \<Rightarrow> 'a list" where
  "or_empty xs = (case xs of None \<Rightarrow> [] | Some ys \<Rightarrow> ys)"

text \<open>
  \<^verbatim>\<open>isTimeSlotBooked(dateStr, timeStr)\<close>:
  \<^verbatim>\<open>this.existingAppointments.some(apt => apt.date === dateStr && apt.time === timeStr
       && (apt.status === 'pending' || apt.status === 'accepted'))\<close>
\<close>

definition isTimeSlotBooked :: "'a slotRef_scheme list \<Rightarrow> string \<Rightarrow> string \<Rightarrow> bool" where
  "isTimeSlotBooked existingAppointments dateStr timeStr =
     list_ex (\<lambda>apt. date apt = dateStr \<and> time apt = timeStr \<and>
                (status apt = ''pending'' \<or> status apt = ''accepted''))
       existingAppointments"

text \<open>
  \<^verbatim>\<open>getAvailableTimeSlots(dateStr)\<close>: no record for the date gives \<^verbatim>\<open>[]\<close>,
  \<^verbatim>\<open>closed === true\<close> gives \<^verbatim>\<open>[]\<close>, otherwise \<^verbatim>\<open>(dayInfo.timeSlots || [])\<close> is filtered
  by \<^verbatim>\<open>!this.isTimeSlotBooked(dateStr, slot)\<close>.
\<close>

definition getAvailableTimeSlots ::
  "availability \<Rightarrow> 'a slotRef_scheme list \<Rightarrow> string \<Rightarrow> string list" where
  "getAvailableTimeSlots avail existingAppointments dateStr =
     (case avail dateStr of
        None \<Rightarrow> []
      | Some dayInfo \<Rightarrow>
          if closed dayInfo = Some True then []
          else filter (\<lambda>slot. \<not> isTimeSlotBooked existingAppointments dateStr slot)
                 (or_empty (timeSlots dayInfo)))"

section \<open>Local dates (the \<^verbatim>\<open>Date\<close> arithmetic of js/admin.js)\<close>

text \<open>
  The admin panel turns \<^verbatim>\<open>YYYY-MM-DD\<close> and \<^verbatim>\<open>HH:MM\<close> strings into local \<^verbatim>\<open>Date\<close> values with
  \<^verbatim>\<open>str.split(sep).map(Number)\<close> and \<^verbatim>\<open>new Date(year, month - 1, day, hours, minutes)\<close>.

  JavaScript numbers are floating-point values. The model computes with the integers
  that are exact there and says so when a value lies beyond them: a number is an
  integer \<open>Num n\<close>, \<^verbatim>\<open>NaN\<close>, or \<open>Beyond\<close>, a value the model does not compute (a
  literal with a sign, a fraction, an exponent or a radix prefix, \<^verbatim>\<open>Infinity\<close>, or an
  integer above \<open>2^53\<close>). Whatever depends on a \<open>Beyond\<close> value is left undetermined
  (\<open>None\<close> below), never guessed.
\<close>

datatype jsNumber = Num int | NaN | Beyond

fun js_split :: "char \<Rightarrow> string \<Rightarrow> string list" where
  "js_split sep [] = [[]]"
| "js_split sep (c # cs) =
     (if c = sep then [] # js_split sep cs
      else (case js_split sep cs of
              [] \<Rightarrow> [[c]]
            | w # ws \<Rightarrow> (c # w) # ws))"

definition isDigit :: "char \<Rightarrow> bool" where
  "isDigit c = (CHR ''0'' \<le> c \<and> c \<le> CHR ''9'')"

definition digitVal :: "char \<Rightarrow> int" where
  "digitVal c = int (of_char c) - 48"

text \<open>
  The white space and line terminators that \<^verbatim>\<open>Number\<close> strips from both ends of a
  string, among the characters of code 0 to 255: tab, line feed, vertical tab, form
  feed, carriage return, space and no-break space.
\<close>

definition isWhiteSpace :: "char \<Rightarrow> bool" where
  "isWhiteSpace c = ((of_char c :: nat) \<in> set [9, 10, 11, 12, 13, 32, 160])"

definition trim :: "string \<Rightarrow> string" where
  "trim s = rev (dropWhile isWhiteSpace (rev (dropWhile isWhiteSpace s)))"

text \<open>
  The characters that occur in some numeric literal of \<^verbatim>\<open>Number\<close>'s grammar: digits,
  signs, the point, the exponent and radix letters, hexadecimal digits and the letters
  of \<^verbatim>\<open>Infinity\<close>. A trimmed string with any other character is not a number.
\<close>

definition literalChars :: string where
  "literalChars = ''0123456789+-.abcdefABCDEFxXoOInity''"

text \<open>
  \<^verbatim>\<open>Number(s)\<close>: the string is trimmed; an empty string is 0 and a string of decimal
  digits is its value (exact up to \<open>2^53\<close>); a string with a character outside the
  numeric literals is \<^verbatim>\<open>NaN\<close>; every other string is a literal form the model does not
  evaluate.
\<close>

definition Number :: "string \<Rightarrow> jsNumber" where
  "Number s =
     (let t = trim s
      in if list_all isDigit t
         then (let v = foldl (\<lambda>acc c. 10 * acc + digitVal c) 0 t
               in if v \<le> 9007199254740992 then Num v else Beyond)
         else if list_ex (\<lambda>c. c \<notin> set literalChars) t then NaN
         else Beyond)"

text \<open>
  Array destructuring \<^verbatim>\<open>[a, b, c] = xs.map(Number)\<close>: a missing element is undefined,
  which \<^verbatim>\<open>new Date\<close> and the subtraction convert to \<^verbatim>\<open>NaN\<close>.
\<close>

definition elem :: "jsNumber list \<Rightarrow> nat \<Rightarrow> jsNumber" where
  "elem xs i = (if i < length xs then xs ! i else NaN)"

text \<open>ECMAScript's day arithmetic: \<^verbatim>\<open>DayFromYear\<close>, leap years and \<^verbatim>\<open>MakeDay\<close>.\<close>

definition DayFromYear :: "int \<Rightarrow> int" where
  "DayFromYear y = 365 * (y - 1970) + (y - 1969) div 4 - (y - 1901) div 100 + (y - 1601) div 400"

definition InLeapYear :: "int \<Rightarrow> bool" where
  "InLeapYear y = ((y mod 4 = 0 \<and> y mod 100 \<noteq> 0) \<or> y mod 400 = 0)"

definition monthStart :: "int \<Rightarrow> int" where
  "monthStart mn = [0, 31, 59, 90, 120, 151, 181, 212, 243, 273, 304, 334] ! nat mn"

definition MakeDay :: "int \<Rightarrow> int \<Rightarrow> int \<Rightarrow> int" where
  "MakeDay year month dt =
     (let ym = year + month div 12;
          mn = month mod 12
      in DayFromYear ym + monthStart mn + (if InLeapYear ym \<and> 2 \<le> mn then 1 else 0) + dt - 1)"

text \<open>
  A \<^verbatim>\<open>Date\<close> is \<open>DateAt t\<close>, with \<open>t\<close> the minutes of local wall-clock time since
  1970-01-01 00:00, or the invalid date, or \<open>BeyondDate\<close>, a date the model does not
  compute. The time-zone offset is taken as constant, and seconds and milliseconds are
  dropped (every date compared below is built from whole minutes or reset to midnight).
  A \<^verbatim>\<open>Date\<close> holds 100 million days either side of the epoch; the model computes the
  dates that stay \<open>dateWindow\<close> minutes inside it, about a week short of the end, and
  leaves the others undetermined.
\<close>

datatype jsDate = DateAt int | InvalidDate | BeyondDate

definition dateWindow :: int where
  "dateWindow = 143999990000"

text \<open>
  \<^verbatim>\<open>new Date(year, month, day, hours, minutes)\<close>: any \<^verbatim>\<open>NaN\<close> argument gives an invalid
  date, a year from 0 to 99 means 1900 + year, and out-of-range fields carry over.
\<close>

definition newDate :: "jsNumber \<Rightarrow> jsNumber \<Rightarrow> jsNumber \<Rightarrow> jsNumber \<Rightarrow> jsNumber \<Rightarrow> jsDate" where
  "newDate year month day hours minutes =
     (if NaN \<in> set [year, month, day, hours, minutes] then InvalidDate
      else (case (year, month, day, hours, minutes) of
              (Num y, Num m, Num d, Num h, Num mi) \<Rightarrow>
                (let t = MakeDay (if 0 \<le> y \<and> y \<le> 99 then 1900 + y else y) m d * 1440
                           + h * 60 + mi
                 in if \<bar>t\<bar> \<le> dateWindow then DateAt t else BeyondDate)
            | _ \<Rightarrow> BeyondDate))"

text \<open>\<^verbatim>\<open>month - 1\<close> on a number.\<close>

definition minus1 :: "jsNumber \<Rightarrow> jsNumber" where
  "minus1 x = (case x of Num v \<Rightarrow> Num (v - 1) | NaN \<Rightarrow> NaN | Beyond \<Rightarrow> Beyond)"

text \<open>\<^verbatim>\<open>d.setHours(0, 0, 0, 0)\<close>: back to the midnight that starts the day.\<close>

definition setHours0 :: "jsDate \<Rightarrow> jsDate" where
  "setHours0 d = (case d of DateAt t \<Rightarrow> DateAt ((t div 1440) * 1440) | _ \<Rightarrow> d)"

text \<open>
  \<^verbatim>\<open>d.setDate(d.getDate() + 1)\<close>: \<^verbatim>\<open>MakeDay\<close> is linear in the day of the month, so the
  date moves on by exactly one day, the time of day kept.
\<close>

definition setDatePlus1 :: "jsDate \<Rightarrow> jsDate" where
  "setDatePlus1 d = (case d of DateAt t \<Rightarrow> DateAt (t + 1440) | _ \<Rightarrow> d)"

text \<open>
  \<^verbatim>\<open>a < b\<close> on dates: false as soon as one side is invalid, undetermined when a side is
  beyond the model and none is invalid.
\<close>

definition dateLess :: "jsDate \<Rightarrow> jsDate \<Rightarrow> bool option" where
  "dateLess a b =
     (if a = InvalidDate \<or> b = InvalidDate then Some False
      else (case (a, b) of
              (DateAt x, DateAt y) \<Rightarrow> Some (x < y)
            | _ \<Rightarrow> None))"


text \<open>
  The two formats of the data model, \<^verbatim>\<open>YYYY-MM-DD\<close> and \<^verbatim>\<open>HH:MM\<close>, as strings built from
  numbers: they state which strings the properties below are about.
\<close>

definition digitChar :: "nat \<Rightarrow> char" where
  "digitChar n = char_of (48 + n mod 10)"

definition pad2 :: "nat \<Rightarrow> string" where
  "pad2 n = [digitChar (n div 10), digitChar n]"

definition pad4 :: "nat \<Rightarrow> string" where
  "pad4 n = [digitChar (n div 1000), digitChar (n div 100), digitChar (n div 10), digitChar n]"

definition dateString :: "nat \<Rightarrow> nat \<Rightarrow> nat \<Rightarrow> string" where
  "dateString y m d = pad4 y @ ''-'' @ pad2 m @ ''-'' @ pad2 d"

definition timeString :: "nat \<Rightarrow> nat \<Rightarrow> string" where
  "timeString h mi = pad2 h @ '':'' @ pad2 mi"

section \<open>Availability editor (\<^verbatim>\<open>AdminPanel\<close> in js/admin.js)\<close>

record adminPanel =
  availability :: availability
  expandedDate :: "string option"
  isSavingAvailability :: bool
  useAPI :: bool

text \<open>
  \<^verbatim>\<open>removeTimeSlot(dateStr, timeSlot)\<close>: the day's slots (those of
  \<^verbatim>\<open>{ available: true, timeSlots: [] }\<close> when the date has no record) are filtered by
  \<^verbatim>\<open>slot !== timeSlot\<close>; an empty result deletes the date's entry and collapses the editor
  if it was open on that date, a non-empty one stores \<^verbatim>\<open>{ available: true, timeSlots }\<close>.
\<close>

definition removeTimeSlot :: "adminPanel \<Rightarrow> string \<Rightarrow> string \<Rightarrow> adminPanel" where
  "removeTimeSlot this dateStr timeSlot =
     (let dayInfo = (case availability this dateStr of
                       None \<Rightarrow> \<lparr>available = Some True, timeSlots = Some [], closed = None\<rparr>
                     | Some di \<Rightarrow> di);
          slots = filter (\<lambda>slot. slot \<noteq> timeSlot) (or_empty (timeSlots dayInfo))
      in if length slots = 0
         then this\<lparr>availability := (availability this)(dateStr := None),
                   expandedDate := (if expandedDate this = Some dateStr then None
                                    else expandedDate this)\<rparr>
         else this\<lparr>availability := (availability this)(dateStr \<mapsto>
                     \<lparr>available = Some True, timeSlots = Some slots, closed = None\<rparr>)\<rparr>)"






section \<open>Appointment list of the admin panel (js/admin.js)\<close>

text \<open>
  \<^verbatim>\<open>isPastAppointment(appointment)\<close>: the appointment's local date and time against the
  midnight that starts tomorrow; \<open>now\<close> is the value of \<^verbatim>\<open>new Date()\<close>. The answer is
  \<open>None\<close> when the appointment's date is beyond the model.
\<close>

definition appointmentDate :: "'a slotRef_scheme \<Rightarrow> jsDate" where
  "appointmentDate apt =
     (let dparts = map Number (js_split CHR ''-'' (date apt));
          tparts = map Number (js_split CHR '':'' (time apt))
      in newDate (elem dparts 0) (minus1 (elem dparts 1)) (elem dparts 2)
           (elem tparts 0) (elem tparts 1))"

definition isPastAppointment :: "int \<Rightarrow> 'a slotRef_scheme \<Rightarrow> bool option" where
  "isPastAppointment now apt =
     (let tomorrow = setHours0 (setDatePlus1 (DateAt now))
      in dateLess (appointmentDate apt) tomorrow)"

text \<open>
  \<^verbatim>\<open>updateStats()\<close>: the three counters written into the page, computed over the
  appointments that are not past (\<open>None\<close> when some appointment's date is beyond the
  model).
\<close>

record stats =
  pendingCount :: nat
  acceptedCount :: nat
  totalCount :: nat

definition updateStats :: "int \<Rightarrow> 'a slotRef_scheme list \<Rightarrow> stats option" where
  "updateStats now appointments =
     (if \<not> list_all (\<lambda>apt. isPastAppointment now apt \<noteq> None) appointments then None
      else
        let activeAppointments =
              filter (\<lambda>apt. isPastAppointment now apt = Some False) appointments
        in Some
             \<lparr>pendingCount = length (filter (\<lambda>apt. status apt = ''pending'') activeAppointments),
              acceptedCount = length (filter (\<lambda>apt. status apt = ''accepted'') activeAppointments),
              totalCount = length activeAppointments\<rparr>)"

text \<open>
  The controls of \<^verbatim>\<open>createAppointmentCard(appointment)\<close>: the delete button and the
  analytics toggle carry \<^verbatim>\<open>disabled\<close> when \<^verbatim>\<open>buttonsDisabled = isUpdating || isPast\<close>; the
  accept and decline buttons are rendered only when the appointment is not past (both
  for a pending appointment, decline alone for an accepted one) and carry \<^verbatim>\<open>disabled\<close>
  while the appointment is updating.
\<close>

record cardControls =
  buttonsDisabled :: bool
  deleteDisabled :: bool
  analyticsToggleDisabled :: bool
  acceptEnabled :: bool
  declineEnabled :: bool

definition createAppointmentCard ::
  "int \<Rightarrow> string set \<Rightarrow> appointment \<Rightarrow> cardControls option" where
  "createAppointmentCard now updatingAppointmentIds apt =
     (case isPastAppointment now apt of
        None \<Rightarrow> None
      | Some isPast \<Rightarrow>
          let isUpdating = (apt_id apt \<in> updatingAppointmentIds);
              disabled = (isUpdating \<or> isPast)
          in Some
               \<lparr>buttonsDisabled = disabled,
                deleteDisabled = disabled,
                analyticsToggleDisabled = disabled,
                acceptEnabled = (\<not> isPast \<and> status apt = ''pending'' \<and> \<not> isUpdating),
                declineEnabled = (\<not> isPast \<and> (status apt = ''pending'' \<or> status apt = ''accepted'')
                                  \<and> \<not> isUpdating)\<rparr>)"

section \<open>Appointment endpoints of the server (server/services/smsService.js)\<close>

text \<open>
  The database is the two tables the handlers query. An appointment row has the columns
  the handlers write and read; \<^verbatim>\<open>date\<close>, \<^verbatim>\<open>time\<close> and \<^verbatim>\<open>status\<close> are the fields of
  \<open>slotRef\<close>. A nullable column is an option.
\<close>

record availabilityRow =
  av_date :: string
  time_ranges :: "string list option"
  is_closed :: "bool option"

record appointmentRow = slotRef +
  row_id :: string
  customer_name :: string
  customer_email :: string
  customer_phone :: string
  row_service :: string
  row_price :: string
  row_duration :: nat
  include_in_analytics :: "bool option"
  row_created_at :: string
  row_updated_at :: string

record database =
  availabilityTable :: "availabilityRow list"
  appointmentsTable :: "appointmentRow list"

text \<open>
  What the database client may report besides rows: an error message for each of the
  three queries of the booking handler (\<open>None\<close>: the query went through).
\<close>

record faults =
  availFault :: "string option"
  bookingCheckFault :: "string option"
  insertFault :: "string option"

text \<open>
  \<^verbatim>\<open>.single()\<close> of the database client: the row when exactly one row matches, an error
  otherwise. The pair is \<^verbatim>\<open>{ data, error }\<close>.
\<close>

definition single :: "'a list \<Rightarrow> 'a option \<times> string option" where
  "single rows = (case rows of
                    [r] \<Rightarrow> (Some r, None)
                  | _ \<Rightarrow> (None, Some ''JSON object requested, multiple (or no) rows returned''))"

text \<open>
  The body of \<^verbatim>\<open>POST /api/appointments\<close>. A missing field is \<open>None\<close>. The booking page
  also sends \<^verbatim>\<open>status: 'pending'\<close>; the handler does not destructure it.
\<close>

record bookingRequest =
  req_customer :: "customer option"
  req_service :: "string option"
  req_price :: "string option"
  req_duration :: "nat option"
  req_date :: "string option"
  req_time :: "string option"
  req_includeInAnalytics :: "bool option"
  req_status :: "string option"

datatype responseBody =
    ErrorBody string "string option"
  | AppointmentBody appointment

record response =
  code :: nat
  body :: responseBody

text \<open>\<^verbatim>\<open>!x\<close> on a string field that may be missing: missing and empty are falsy.\<close>

definition falsy :: "string option \<Rightarrow> bool" where
  "falsy x = (x = None \<or> x = Some [])"

text \<open>The value of a string field once the falsy check has passed.\<close>

definition str :: "string option \<Rightarrow> string" where
  "str x = (case x of None \<Rightarrow> [] | Some v \<Rightarrow> v)"

text \<open>The conversion "database format to frontend format" the three handlers share.\<close>

definition toFrontend :: "appointmentRow \<Rightarrow> appointment" where
  "toFrontend data =
     \<lparr>date = date data, time = time data, status = status data,
      apt_id = row_id data,
      apt_customer = \<lparr>name = Some (customer_name data), email = Some (customer_email data),
                       phone = Some (customer_phone data)\<rparr>,
      service = row_service data, price = row_price data, duration = row_duration data,
      includeInAnalytics = (include_in_analytics data \<noteq> Some False),
      created_at = row_created_at data, updated_at = row_updated_at data\<rparr>"

text \<open>
  The two read queries of the booking handler:
  \<^verbatim>\<open>from('availability').select('*').eq('date', date).single()\<close> and
  \<^verbatim>\<open>from('appointments').select('id').eq('date', date).eq('time', time)
       .in('status', ['pending', 'accepted'])\<close>.
\<close>

definition availabilityFor ::
  "database \<Rightarrow> faults \<Rightarrow> string \<Rightarrow> availabilityRow option \<times> string option" where
  "availabilityFor db flt dateV =
     (case availFault flt of
        Some e \<Rightarrow> (None, Some e)
      | None \<Rightarrow> single (filter (\<lambda>r. av_date r = dateV) (availabilityTable db)))"

definition existingBookingsFor :: "database \<Rightarrow> string \<Rightarrow> string \<Rightarrow> appointmentRow list" where
  "existingBookingsFor db dateV timeV =
     filter (\<lambda>r. date r = dateV \<and> time r = timeV \<and> status r \<in> set [''pending'', ''accepted''])
       (appointmentsTable db)"

text \<open>
  \<^verbatim>\<open>app.post('/api/appointments', ...)\<close>, in the steps its comments name. \<open>newId\<close> and
  \<open>stamp\<close> are the id and the timestamps the database gives the new row. The result is
  the response and the database afterwards. The SMS confirmation is sent without being
  awaited and cannot change the response, so it is left out.

  "Prepare appointment data to save": the row, with \<^verbatim>\<open>status: 'pending'\<close>,
  \<^verbatim>\<open>price || '0.00'\<close>, \<^verbatim>\<open>duration || 45\<close> and \<^verbatim>\<open>includeInAnalytics = true\<close> by default.
\<close>

definition appointmentData :: "string \<Rightarrow> string \<Rightarrow> customer \<Rightarrow> bookingRequest \<Rightarrow> appointmentRow" where
  "appointmentData newId stamp c req =
     \<lparr>date = str (req_date req), time = str (req_time req), status = ''pending'',
      row_id = newId,
      customer_name = str (name c),
      customer_email = str (email c),
      customer_phone = str (phone c),
      row_service = str (req_service req),
      row_price = (if falsy (req_price req) then ''0.00'' else str (req_price req)),
      row_duration = (case req_duration req of
                        None \<Rightarrow> 45
                      | Some n \<Rightarrow> if n = 0 then 45 else n),
      include_in_analytics = Some (case req_includeInAnalytics req of
                                     None \<Rightarrow> True | Some b \<Rightarrow> b),
      row_created_at = stamp, row_updated_at = stamp\<rparr>"

text \<open>"Insert new appointment into database" and the 201 response.\<close>

definition insertAppointment :: "database \<Rightarrow> faults \<Rightarrow> appointmentRow \<Rightarrow> response \<times> database" where
  "insertAppointment db flt row =
     (case insertFault flt of
        Some e \<Rightarrow>
          (\<lparr>code = 500, body = ErrorBody ''Failed to create appointment'' (Some e)\<rparr>, db)
      | None \<Rightarrow>
          (\<lparr>code = 201, body = AppointmentBody (toFrontend row)\<rparr>,
           db\<lparr>appointmentsTable := appointmentsTable db @ [row]\<rparr>))"

text \<open>"Check if this time slot is already booked", then prepare and insert.\<close>

definition bookSlot ::
  "database \<Rightarrow> faults \<Rightarrow> string \<Rightarrow> string \<Rightarrow> customer \<Rightarrow> bookingRequest \<Rightarrow> response \<times> database" where
  "bookSlot db flt newId stamp c req =
     (case bookingCheckFault flt of
        Some e \<Rightarrow>
          (\<lparr>code = 500, body = ErrorBody ''Failed to verify availability'' (Some e)\<rparr>, db)
      | None \<Rightarrow>
          let existingBookings = existingBookingsFor db (str (req_date req)) (str (req_time req))
          in if length existingBookings > 0
             then (\<lparr>code = 400, body = ErrorBody ''This time slot is already booked'' None\<rparr>, db)
             else insertAppointment db flt (appointmentData newId stamp c req))"

text \<open>"Check if the time slot is still available": the date's availability row.\<close>

definition checkDate ::
  "database \<Rightarrow> faults \<Rightarrow> string \<Rightarrow> string \<Rightarrow> customer \<Rightarrow> bookingRequest \<Rightarrow> response \<times> database" where
  "checkDate db flt newId stamp c req =
     (case availabilityFor db flt (str (req_date req)) of
        (availabilityData, availError) \<Rightarrow>
          (case availError of
             Some e \<Rightarrow>
               (\<lparr>code = 400,
                 body = ErrorBody (''This date is not available for booking: '' @ e) None\<rparr>, db)
           | None \<Rightarrow>
              (case availabilityData of
                 None \<Rightarrow>
                   (\<lparr>code = 400, body = ErrorBody
                      ''This date is not available for booking. Please select a date with available time slots.''
                      None\<rparr>, db)
               | Some av \<Rightarrow>
                   if is_closed av = Some True
                   then (\<lparr>code = 400, body = ErrorBody
                           ''This date is closed and not available for booking'' None\<rparr>, db)
                   else bookSlot db flt newId stamp c req)))"

text \<open>"Validate required fields", first of all.\<close>

definition postAppointment ::
  "database \<Rightarrow> faults \<Rightarrow> string \<Rightarrow> string \<Rightarrow> bookingRequest \<Rightarrow> response \<times> database" where
  "postAppointment db flt newId stamp req =
     (case req_customer req of
        None \<Rightarrow>
          (\<lparr>code = 400, body = ErrorBody ''Customer information is required'' None\<rparr>, db)
      | Some c \<Rightarrow>
          if falsy (name c) \<or> falsy (email c) \<or> falsy (phone c)
          then (\<lparr>code = 400, body = ErrorBody ''Customer information is required'' None\<rparr>, db)
          else if falsy (req_service req) \<or> falsy (req_date req) \<or> falsy (req_time req)
          then (\<lparr>code = 400, body = ErrorBody ''Service, date, and time are required'' None\<rparr>,
                db)
          else checkDate db flt newId stamp c req)"

text \<open>
  The body of \<^verbatim>\<open>PATCH /api/appointments/:id\<close> is handed to the database as the column
  update; the columns modelled are the ones the booking rules read. The handler adds
  \<^verbatim>\<open>updated_at\<close>.
\<close>

record updateData =
  upd_status :: "string option"
  upd_date :: "string option"
  upd_time :: "string option"
  upd_include_in_analytics :: "bool option"

definition applyUpdate :: "updateData \<Rightarrow> string \<Rightarrow> appointmentRow \<Rightarrow> appointmentRow" where
  "applyUpdate upd stamp r =
     r\<lparr>status := (case upd_status upd of None \<Rightarrow> status r | Some v \<Rightarrow> v),
       date := (case upd_date upd of None \<Rightarrow> date r | Some v \<Rightarrow> v),
       time := (case upd_time upd of None \<Rightarrow> time r | Some v \<Rightarrow> v),
       include_in_analytics := (case upd_include_in_analytics upd of
                                  None \<Rightarrow> include_in_analytics r | Some v \<Rightarrow> Some v),
       row_updated_at := stamp\<rparr>"

text \<open>
  \<^verbatim>\<open>app.patch('/api/appointments/:id', ...)\<close>: the update goes to the rows whose id
  matches, with no look at a row's present status, and \<^verbatim>\<open>.single()\<close> asks for exactly one
  updated row; when the request fails the rows stay as they were. \<open>updateFault\<close> is an
  error of the update query itself. The SMS notifications are left out as above.
\<close>

definition patchAppointment ::
  "database \<Rightarrow> string option \<Rightarrow> string \<Rightarrow> string \<Rightarrow> updateData \<Rightarrow> response \<times> database" where
  "patchAppointment db updateFault stamp appointmentId upd =
     (if appointmentId = []
      then (\<lparr>code = 400, body = ErrorBody ''Appointment ID is required'' None\<rparr>, db)
      else
        (case updateFault of
           Some e \<Rightarrow>
             (\<lparr>code = 500, body = ErrorBody ''Failed to update appointment'' (Some e)\<rparr>, db)
         | None \<Rightarrow>
             let db' = db\<lparr>appointmentsTable :=
                          map (\<lambda>r. if row_id r = appointmentId then applyUpdate upd stamp r else r)
                            (appointmentsTable db)\<rparr>;
                 (data, error) = single (filter (\<lambda>r. row_id r = appointmentId)
                                           (appointmentsTable db'))
             in (case error of
                   Some e \<Rightarrow>
                     (\<lparr>code = 500,
                       body = ErrorBody ''Failed to update appointment'' (Some e)\<rparr>, db)
                 | None \<Rightarrow>
                    (case data of
                       None \<Rightarrow>
                         (\<lparr>code = 404, body = ErrorBody ''Appointment not found'' None\<rparr>, db)
                     | Some row \<Rightarrow>
                         (\<lparr>code = 200, body = AppointmentBody (toFrontend row)\<rparr>, db')))))"

text \<open>
  The double-booking invariant of the appointments table: at every date and time at
  most one row has status pending or accepted.
\<close>

definition noDoubleBooking :: "'a slotRef_scheme list \<Rightarrow> bool" where
  "noDoubleBooking rows =
     distinct (map (\<lambda>r. (date r, time r))
                 (filter (\<lambda>r. status r = ''pending'' \<or> status r = ''accepted'') rows))"

text \<open>
  Names for the guards of the booking handler, used to state its properties: the
  required-field checks, and a date whose availability query returns one row that is
  not closed.
\<close>

definition customerOk :: "bookingRequest \<Rightarrow> bool" where
  "customerOk req =
     (case req_customer req of
        None \<Rightarrow> False
      | Some c \<Rightarrow> \<not> falsy (name c) \<and> \<not> falsy (email c) \<and> \<not> falsy (phone c))"

definition fieldsOk :: "bookingRequest \<Rightarrow> bool" where
  "fieldsOk req = (\<not> falsy (req_service req) \<and> \<not> falsy (req_date req) \<and> \<not> falsy (req_time req))"

definition dayOpen :: "database \<Rightarrow> faults \<Rightarrow> string \<Rightarrow> bool" where
  "dayOpen db flt d =
     (case availabilityFor db flt d of
        (Some av, None) \<Rightarrow> is_closed av \<noteq> Some True
      | _ \<Rightarrow> False)"

section \<open>Availability endpoint of the server (server/services/smsService.js)\<close>














section \<open>Example data\<close>

text \<open>
  The scenario of the specification's testable properties: one open date with the slots
  09:00 and 09:45, a pending appointment at 09:00 and a declined one at 09:45.
\<close>

definition noFaults :: faults where
  "noFaults = \<lparr>availFault = None, bookingCheckFault = None, insertFault = None\<rparr>"

definition demoRow :: "string \<Rightarrow> string \<Rightarrow> string \<Rightarrow> appointmentRow" where
  "demoRow i t s =
     \<lparr>date = ''2025-06-10'', time = t, status = s, row_id = i,
      customer_name = ''Ann'', customer_email = ''ann@example.org'',
      customer_phone = ''5550100'', row_service = ''Haircut'', row_price = ''25.00'',
      row_duration = 45, include_in_analytics = Some True,
      row_created_at = ''2025-06-01T10:00:00Z'', row_updated_at = ''2025-06-01T10:00:00Z''\<rparr>"

definition demoDb :: database where
  "demoDb =
     \<lparr>availabilityTable =
        [\<lparr>av_date = ''2025-06-10'', time_ranges = Some [''09:00'', ''09:45''],
          is_closed = Some False\<rparr>],
      appointmentsTable = [demoRow ''a1'' ''09:00'' ''pending'',
                           demoRow ''a2'' ''09:45'' ''declined'']\<rparr>"

definition demoRequest :: "customer option \<Rightarrow> string \<Rightarrow> string \<Rightarrow> bookingRequest" where
  "demoRequest c d t =
     \<lparr>req_customer = c, req_service = Some ''Haircut'', req_price = Some ''25.00'',
      req_duration = Some 45, req_date = Some d, req_time = Some t,
      req_includeInAnalytics = None, req_status = Some ''accepted''\<rparr>"

definition demoCustomer :: customer where
  "demoCustomer = \<lparr>name = Some ''Bob'', email = Some ''bob@example.org'',
                    phone = Some ''5550101''\<rparr>"

text \<open>
  A table in which a declined appointment shares its date and time with a pending one.
\<close>

definition clashDb :: database where
  "clashDb =
     \<lparr>availabilityTable =
        [\<lparr>av_date = ''2025-06-10'', time_ranges = Some [''09:00'', ''09:45''],
          is_closed = Some False\<rparr>],
      appointmentsTable = [demoRow ''a1'' ''09:00'' ''pending'',
                           demoRow ''a2'' ''09:00'' ''declined'']\<rparr>"



section \<open>Properties of the slot resolver\<close>

lemma isTimeSlotBooked_iff:
  "isTimeSlotBooked apts d t \<longleftrightarrow>
     (\<exists>a \<in> set apts. date a = d \<and> time a = t \<and>
        (status a = ''pending'' \<or> status a = ''accepted''))"
  by (simp add: isTimeSlotBooked_def list_ex_iff)

text \<open>
  Claim C2. The slot resolver returns the empty list when the date has no record in the
  store or its record has \<open>closed = true\<close>; otherwise it returns the record's
  \<open>timeSlots\<close>, in their order, without the times at which some appointment of that
  date has status pending or accepted.
\<close>

theorem getAvailableTimeSlots_resolves:
  "(avail d = None \<longrightarrow> getAvailableTimeSlots avail apts d = []) \<and>
   (\<forall>day. avail d = Some day \<and> closed day = Some True \<longrightarrow>
       getAvailableTimeSlots avail apts d = []) \<and>
   (\<forall>day. avail d = Some day \<and> closed day \<noteq> Some True \<longrightarrow>
       getAvailableTimeSlots avail apts d =
         filter (\<lambda>t. \<not> (\<exists>a \<in> set apts. date a = d \<and> time a = t \<and>
                          (status a = ''pending'' \<or> status a = ''accepted'')))
           (or_empty (timeSlots day)))"
  by (simp add: getAvailableTimeSlots_def isTimeSlotBooked_iff)

theorem getAvailableTimeSlots_resolves_witness:
  "[''2025-06-10'' \<mapsto> \<lparr>available = Some True, timeSlots = Some [''09:00'', ''09:45''],
                        closed = Some False\<rparr>] ''2025-06-11'' = None \<and>
   getAvailableTimeSlots
     [''2025-06-10'' \<mapsto> \<lparr>available = Some True, timeSlots = Some [''09:00'', ''09:45''],
                          closed = Some False\<rparr>]
     [\<lparr>date = ''2025-06-10'', time = ''09:00'', status = ''pending''\<rparr>] ''2025-06-11'' = [] \<and>
   getAvailableTimeSlots
     [''2025-06-10'' \<mapsto> \<lparr>available = Some False, timeSlots = Some [''09:00'', ''09:45''],
                          closed = Some True\<rparr>]
     [\<lparr>date = ''2025-06-10'', time = ''09:00'', status = ''pending''\<rparr>] ''2025-06-10'' = [] \<and>
   getAvailableTimeSlots
     [''2025-06-10'' \<mapsto> \<lparr>available = Some True, timeSlots = Some [''09:00'', ''09:45''],
                          closed = Some False\<rparr>]
     [\<lparr>date = ''2025-06-10'', time = ''09:00'', status = ''pending''\<rparr>,
      \<lparr>date = ''2025-06-10'', time = ''09:45'', status = ''declined''\<rparr>] ''2025-06-10''
       = [''09:45'']"
  using
    getAvailableTimeSlots_resolves [of
      "[''2025-06-10'' \<mapsto> \<lparr>available = Some True, timeSlots = Some [''09:00'', ''09:45''],
                            closed = Some False\<rparr>]"
      "''2025-06-11''"
      "[\<lparr>date = ''2025-06-10'', time = ''09:00'', status = ''pending''\<rparr>]"]
    getAvailableTimeSlots_resolves [of
      "[''2025-06-10'' \<mapsto> \<lparr>available = Some False, timeSlots = Some [''09:00'', ''09:45''],
                            closed = Some True\<rparr>]"
      "''2025-06-10''"
      "[\<lparr>date = ''2025-06-10'', time = ''09:00'', status = ''pending''\<rparr>]"]
    getAvailableTimeSlots_resolves [of
      "[''2025-06-10'' \<mapsto> \<lparr>available = Some True, timeSlots = Some [''09:00'', ''09:45''],
                            closed = Some False\<rparr>]"
      "''2025-06-10''"
      "[\<lparr>date = ''2025-06-10'', time = ''09:00'', status = ''pending''\<rparr>,
        \<lparr>date = ''2025-06-10'', time = ''09:45'', status = ''declined''\<rparr>]"]
  by (simp add: or_empty_def)

lemma getAvailableTimeSlots_filter:
  "getAvailableTimeSlots avail apts d =
     filter (\<lambda>slot. \<not> isTimeSlotBooked apts d slot)
       (case avail d of
          None \<Rightarrow> []
        | Some day \<Rightarrow> if closed day = Some True then [] else or_empty (timeSlots day))"
  by (simp add: getAvailableTimeSlots_def split: option.splits)

text \<open>
  Claim C8, as stated: the resolver's output is ascending for every input, because the
  resolver sorts. The source has no sort: an unsorted \<open>timeSlots\<close> list comes back
  unsorted.
\<close>

theorem getAvailableTimeSlots_unsorted_counterexample:
  "\<not> sorted (getAvailableTimeSlots
       [''2025-06-10'' \<mapsto> \<lparr>available = Some True, timeSlots = Some [''10:00'', ''09:00''],
                            closed = Some False\<rparr>]
       ([] :: slotRef list) ''2025-06-10'')"
  by (simp add: getAvailableTimeSlots_def or_empty_def isTimeSlotBooked_def)

text \<open>
  Claim C8, amended. The resolver keeps the order of the day's \<open>timeSlots\<close>: whenever
  the stored list is in ascending (lexicographic) order, so is the returned list.
\<close>

theorem getAvailableTimeSlots_sorted:
  assumes "avail d = Some day" and "sorted (or_empty (timeSlots day))"
  shows "sorted (getAvailableTimeSlots avail apts d)"
  using assms by (simp add: getAvailableTimeSlots_filter sorted_wrt_filter)

theorem getAvailableTimeSlots_sorted_witness:
  "[''2025-06-10'' \<mapsto> \<lparr>available = Some True, timeSlots = Some [''09:00'', ''09:45'', ''10:30''],
                        closed = Some False\<rparr>] ''2025-06-10''
     = Some \<lparr>available = Some True, timeSlots = Some [''09:00'', ''09:45'', ''10:30''],
             closed = Some False\<rparr> \<and>
   sorted (or_empty (timeSlots \<lparr>available = Some True,
             timeSlots = Some [''09:00'', ''09:45'', ''10:30''], closed = Some False\<rparr>)) \<and>
   sorted (getAvailableTimeSlots
     [''2025-06-10'' \<mapsto> \<lparr>available = Some True, timeSlots = Some [''09:00'', ''09:45'', ''10:30''],
                          closed = Some False\<rparr>]
     [\<lparr>date = ''2025-06-10'', time = ''09:45'', status = ''accepted''\<rparr>] ''2025-06-10'')"
proof -
  let ?day = "\<lparr>available = Some True, timeSlots = Some [''09:00'', ''09:45'', ''10:30''],
               closed = Some False\<rparr>"
  let ?avail = "[''2025-06-10'' \<mapsto> ?day]"
  have h1: "?avail ''2025-06-10'' = Some ?day"
    by simp
  have h2: "sorted (or_empty (timeSlots ?day))"
    by (simp add: or_empty_def)
  from getAvailableTimeSlots_sorted [of ?avail "''2025-06-10''" ?day, OF h1 h2] h1 h2
  show ?thesis by blast
qed

section \<open>Properties of the availability editor\<close>

lemma removeTimeSlot_emptied:
  assumes "filter (\<lambda>slot. slot \<noteq> t)
             (case availability this d of None \<Rightarrow> [] | Some di \<Rightarrow> or_empty (timeSlots di)) = []"
  shows "availability (removeTimeSlot this d t) d = None"
  using assms by (simp add: removeTimeSlot_def Let_def or_empty_def split: option.splits)

text \<open>
  Claim C6 at the input where the source departs from it: a closed day whose only slot is
  removed. \<^verbatim>\<open>removeTimeSlot\<close> never reads \<^verbatim>\<open>closed\<close>, so the entry is deleted, although
  \<^verbatim>\<open>saveDayAvailability\<close> keeps a closed day that has no slots.
\<close>

theorem removeTimeSlot_closed_day_deleted:
  "availability
     (removeTimeSlot
        \<lparr>availability = [''2025-06-10'' \<mapsto> \<lparr>available = Some False,
                            timeSlots = Some [''09:00''], closed = Some True\<rparr>],
         expandedDate = None, isSavingAvailability = False, useAPI = True\<rparr>
        ''2025-06-10'' ''09:00'')
     ''2025-06-10'' = None"
  by (simp add: removeTimeSlot_def or_empty_def)



section \<open>Properties of the availability endpoint\<close>












section \<open>Properties of copying time slots\<close>















section \<open>Properties of the booking handler\<close>

lemma existingBookingsFor_nonempty:
  "existingBookingsFor db d t \<noteq> [] \<longleftrightarrow> isTimeSlotBooked (appointmentsTable db) d t"
  unfolding existingBookingsFor_def isTimeSlotBooked_iff filter_empty_conv
  by (simp del: One_nat_def) blast

lemma bookSlot_fault:
  "bookingCheckFault flt = Some e \<Longrightarrow>
     bookSlot db flt newId stamp c req =
       (\<lparr>code = 500, body = ErrorBody ''Failed to verify availability'' (Some e)\<rparr>, db)"
  by (simp add: bookSlot_def)

lemma bookSlot_taken:
  "bookingCheckFault flt = None \<Longrightarrow>
   isTimeSlotBooked (appointmentsTable db) (str (req_date req)) (str (req_time req)) \<Longrightarrow>
     bookSlot db flt newId stamp c req =
       (\<lparr>code = 400, body = ErrorBody ''This time slot is already booked'' None\<rparr>, db)"
  using existingBookingsFor_nonempty [of db "str (req_date req)" "str (req_time req)"]
  by (simp add: bookSlot_def)

lemma bookSlot_free:
  "bookingCheckFault flt = None \<Longrightarrow>
   \<not> isTimeSlotBooked (appointmentsTable db) (str (req_date req)) (str (req_time req)) \<Longrightarrow>
     bookSlot db flt newId stamp c req =
       insertAppointment db flt (appointmentData newId stamp c req)"
  using existingBookingsFor_nonempty [of db "str (req_date req)" "str (req_time req)"]
  by (simp add: bookSlot_def)

lemma checkDate_open:
  "dayOpen db flt (str (req_date req)) \<Longrightarrow>
     checkDate db flt newId stamp c req = bookSlot db flt newId stamp c req"
  by (simp add: checkDate_def dayOpen_def split: prod.splits option.splits)

lemma checkDate_not_open:
  "\<not> dayOpen db flt (str (req_date req)) \<Longrightarrow>
     snd (checkDate db flt newId stamp c req) = db \<and>
     (\<exists>msg. fst (checkDate db flt newId stamp c req) = \<lparr>code = 400, body = ErrorBody msg None\<rparr> \<and>
            take 10 msg = ''This date '')"
  by (simp add: checkDate_def dayOpen_def split: prod.splits option.splits)

lemma postAppointment_invalid_customer:
  "\<not> customerOk req \<Longrightarrow>
     postAppointment db flt newId stamp req =
       (\<lparr>code = 400, body = ErrorBody ''Customer information is required'' None\<rparr>, db)"
  by (cases "req_customer req") (simp_all add: postAppointment_def customerOk_def)

lemma postAppointment_missing_fields:
  "customerOk req \<Longrightarrow> \<not> fieldsOk req \<Longrightarrow>
     postAppointment db flt newId stamp req =
       (\<lparr>code = 400, body = ErrorBody ''Service, date, and time are required'' None\<rparr>, db)"
  by (cases "req_customer req") (simp_all add: postAppointment_def customerOk_def fieldsOk_def)

lemma postAppointment_valid:
  "customerOk req \<Longrightarrow> fieldsOk req \<Longrightarrow>
     \<exists>c. req_customer req = Some c \<and>
         postAppointment db flt newId stamp req = checkDate db flt newId stamp c req"
  by (cases "req_customer req") (simp_all add: postAppointment_def customerOk_def fieldsOk_def)

lemma insertAppointment_cases:
  "(insertFault flt = None \<and>
      insertAppointment db flt row =
        (\<lparr>code = 201, body = AppointmentBody (toFrontend row)\<rparr>,
         db\<lparr>appointmentsTable := appointmentsTable db @ [row]\<rparr>)) \<or>
   (\<exists>e. insertFault flt = Some e \<and>
      insertAppointment db flt row =
        (\<lparr>code = 500, body = ErrorBody ''Failed to create appointment'' (Some e)\<rparr>, db))"
  by (cases "insertFault flt") (simp_all add: insertAppointment_def)

lemma appointmentData_slot:
  "date (appointmentData newId stamp c req) = str (req_date req) \<and>
   time (appointmentData newId stamp c req) = str (req_time req) \<and>
   status (appointmentData newId stamp c req) = ''pending''"
  by (simp add: appointmentData_def)

lemma noDoubleBooking_append_pending:
  assumes "noDoubleBooking rows" and "\<not> isTimeSlotBooked rows (date r) (time r)"
  shows "noDoubleBooking (rows @ [r])"
  using assms
  by (auto simp: noDoubleBooking_def isTimeSlotBooked_iff)

text \<open>The complete decision of the handler: a 201 exactly on the path that inserts.\<close>

lemma postAppointment_created_iff:
  "code (fst (postAppointment db flt newId stamp req)) = 201 \<longleftrightarrow>
     customerOk req \<and> fieldsOk req \<and> dayOpen db flt (str (req_date req)) \<and>
     bookingCheckFault flt = None \<and>
     \<not> isTimeSlotBooked (appointmentsTable db) (str (req_date req)) (str (req_time req)) \<and>
     insertFault flt = None"
proof (cases "customerOk req")
  case False
  then show ?thesis by (simp add: postAppointment_invalid_customer)
next
  case cust: True
  show ?thesis
  proof (cases "fieldsOk req")
    case False
    with cust show ?thesis by (simp add: postAppointment_missing_fields)
  next
    case flds: True
    from postAppointment_valid [OF cust flds] obtain c where
      p: "postAppointment db flt newId stamp req = checkDate db flt newId stamp c req"
      by blast
    show ?thesis
    proof (cases "dayOpen db flt (str (req_date req))")
      case False
      from checkDate_not_open [OF False] obtain msg where
        "fst (checkDate db flt newId stamp c req) = \<lparr>code = 400, body = ErrorBody msg None\<rparr>"
        by blast
      with False cust flds p show ?thesis by simp
    next
      case opn: True
      note q = checkDate_open [OF opn, of newId stamp c]
      show ?thesis
      proof (cases "bookingCheckFault flt")
        case (Some e)
        with cust flds opn p q show ?thesis by (simp add: bookSlot_fault)
      next
        case chk: None
        show ?thesis
        proof (cases "isTimeSlotBooked (appointmentsTable db) (str (req_date req)) (str (req_time req))")
          case True
          with cust flds opn p q chk show ?thesis by (simp add: bookSlot_taken)
        next
          case False
          from insertAppointment_cases [of flt db "appointmentData newId stamp c req"]
          show ?thesis using cust flds opn p q chk False
            by (auto simp: bookSlot_free)
        qed
      qed
    qed
  qed
qed

lemma postAppointment_created:
  assumes "code (fst (postAppointment db flt newId stamp req)) = 201"
  shows "\<exists>c. req_customer req = Some c \<and>
           postAppointment db flt newId stamp req =
             (\<lparr>code = 201,
               body = AppointmentBody (toFrontend (appointmentData newId stamp c req))\<rparr>,
              db\<lparr>appointmentsTable := appointmentsTable db @ [appointmentData newId stamp c req]\<rparr>)"
proof -
  from assms have h: "customerOk req" "fieldsOk req" "dayOpen db flt (str (req_date req))"
    "bookingCheckFault flt = None"
    "\<not> isTimeSlotBooked (appointmentsTable db) (str (req_date req)) (str (req_time req))"
    "insertFault flt = None"
    by (simp_all add: postAppointment_created_iff)
  from postAppointment_valid [OF h(1) h(2)] obtain c where
    c: "req_customer req = Some c"
    and p: "postAppointment db flt newId stamp req = checkDate db flt newId stamp c req"
    by blast
  from p h show ?thesis
    by (simp add: c checkDate_open bookSlot_free insertAppointment_def)
qed

lemma postAppointment_not_created:
  assumes "code (fst (postAppointment db flt newId stamp req)) \<noteq> 201"
  shows "snd (postAppointment db flt newId stamp req) = db"
proof (cases "customerOk req")
  case False
  then show ?thesis by (simp add: postAppointment_invalid_customer)
next
  case cust: True
  show ?thesis
  proof (cases "fieldsOk req")
    case False
    with cust show ?thesis by (simp add: postAppointment_missing_fields)
  next
    case flds: True
    from postAppointment_valid [OF cust flds] obtain c where
      p: "postAppointment db flt newId stamp req = checkDate db flt newId stamp c req"
      by blast
    show ?thesis
    proof (cases "dayOpen db flt (str (req_date req))")
      case False
      from checkDate_not_open [OF False] p show ?thesis by simp
    next
      case opn: True
      note q = checkDate_open [OF opn, of newId stamp c]
      show ?thesis
      proof (cases "bookingCheckFault flt")
        case (Some e)
        with p q show ?thesis by (simp add: bookSlot_fault)
      next
        case chk: None
        show ?thesis
        proof (cases "isTimeSlotBooked (appointmentsTable db) (str (req_date req)) (str (req_time req))")
          case True
          with p q chk show ?thesis by (simp add: bookSlot_taken)
        next
          case False
          from insertAppointment_cases [of flt db "appointmentData newId stamp c req"]
          show ?thesis using assms p q chk False
            by (auto simp: bookSlot_free)
        qed
      qed
    qed
  qed
qed

lemma postAppointment_keeps_invariant:
  assumes "noDoubleBooking (appointmentsTable db)"
  shows "noDoubleBooking (appointmentsTable (snd (postAppointment db flt newId stamp req)))"
proof (cases "code (fst (postAppointment db flt newId stamp req)) = 201")
  case False
  with assms show ?thesis by (simp add: postAppointment_not_created)
next
  case True
  from postAppointment_created [OF True] obtain c where
    p: "snd (postAppointment db flt newId stamp req) =
          db\<lparr>appointmentsTable := appointmentsTable db @ [appointmentData newId stamp c req]\<rparr>"
    by auto
  from True have free:
    "\<not> isTimeSlotBooked (appointmentsTable db) (str (req_date req)) (str (req_time req))"
    by (simp add: postAppointment_created_iff)
  have "noDoubleBooking (appointmentsTable db @ [appointmentData newId stamp c req])"
    by (rule noDoubleBooking_append_pending [OF assms]) (simp add: appointmentData_slot free)
  with p show ?thesis by simp
qed

lemma postAppointment_rejected:
  assumes "code (fst (postAppointment db flt newId stamp req)) \<noteq> 201"
  shows "\<exists>msg det. body (fst (postAppointment db flt newId stamp req)) = ErrorBody msg det"
proof (cases "customerOk req")
  case False
  then show ?thesis by (simp add: postAppointment_invalid_customer)
next
  case cust: True
  show ?thesis
  proof (cases "fieldsOk req")
    case False
    with cust show ?thesis by (simp add: postAppointment_missing_fields)
  next
    case flds: True
    from postAppointment_valid [OF cust flds] obtain c where
      p: "postAppointment db flt newId stamp req = checkDate db flt newId stamp c req"
      by blast
    show ?thesis
    proof (cases "dayOpen db flt (str (req_date req))")
      case False
      from checkDate_not_open [OF False, of newId stamp c] p show ?thesis by auto
    next
      case opn: True
      note q = checkDate_open [OF opn, of newId stamp c]
      show ?thesis
      proof (cases "bookingCheckFault flt")
        case (Some e)
        with p q show ?thesis by (simp add: bookSlot_fault)
      next
        case chk: None
        show ?thesis
        proof (cases "isTimeSlotBooked (appointmentsTable db) (str (req_date req)) (str (req_time req))")
          case True
          with p q chk show ?thesis by (simp add: bookSlot_taken)
        next
          case False
          from insertAppointment_cases [of flt db "appointmentData newId stamp c req"]
          show ?thesis using assms p q chk False
            by (auto simp: bookSlot_free)
        qed
      qed
    qed
  qed
qed

lemma appointmentData_ignores_status:
  "appointmentData newId stamp c (req\<lparr>req_status := s\<rparr>) = appointmentData newId stamp c req"
  by (simp add: appointmentData_def)

lemma bookSlot_ignores_status:
  "bookSlot db flt newId stamp c (req\<lparr>req_status := s\<rparr>) = bookSlot db flt newId stamp c req"
  by (cases "bookingCheckFault flt") (simp_all add: bookSlot_def appointmentData_ignores_status)

lemma checkDate_ignores_status:
  "checkDate db flt newId stamp c (req\<lparr>req_status := s\<rparr>) = checkDate db flt newId stamp c req"
  by (simp add: checkDate_def bookSlot_ignores_status
      split: prod.splits option.splits)

lemma postAppointment_ignores_status:
  "postAppointment db flt newId stamp (req\<lparr>req_status := s\<rparr>) =
     postAppointment db flt newId stamp req"
  by (cases "req_customer req") (simp_all add: postAppointment_def checkDate_ignores_status)

text \<open>
  Claim C1, as stated: at every date and time at most one appointment is pending or
  accepted. The booking handler keeps that, the status update does not: on a table that
  has it, with a declined appointment at the date and time of a pending one,
  \<^verbatim>\<open>PATCH /api/appointments/:id\<close> with \<^verbatim>\<open>{ status: 'accepted' }\<close> is answered 200 and leaves
  two appointments holding the slot.
\<close>

theorem patchAppointment_double_booking_counterexample:
  "noDoubleBooking (appointmentsTable clashDb) \<and>
   code (fst (patchAppointment clashDb None ''2025-06-03T08:00:00Z'' ''a2''
                \<lparr>upd_status = Some ''accepted'', upd_date = None, upd_time = None,
                  upd_include_in_analytics = None\<rparr>)) = 200 \<and>
   \<not> noDoubleBooking (appointmentsTable
        (snd (patchAppointment clashDb None ''2025-06-03T08:00:00Z'' ''a2''
                \<lparr>upd_status = Some ''accepted'', upd_date = None, upd_time = None,
                  upd_include_in_analytics = None\<rparr>)))"
  by (simp add: patchAppointment_def Let_def single_def applyUpdate_def noDoubleBooking_def
        clashDb_def demoRow_def)

text \<open>
  Claim C1, amended. The double-booking guard of \<^verbatim>\<open>POST /api/appointments\<close>, for a
  request for date \<open>d\<close> and time \<open>t\<close>. If some appointment at \<open>(d, t)\<close> is pending or
  accepted, the request is never answered 201 and the table is left as it was; once the
  request has passed the handler's earlier checks the answer is 400 "This time slot is
  already booked". If every appointment at \<open>(d, t)\<close> is declined or cancelled, a request
  that passes the earlier checks is answered 201 and a pending row for \<open>(d, t)\<close> is
  added. A booking request therefore keeps a table with at most one pending or accepted
  row per date and time in that state; the property is one of the booking handler, not
  of the status update.
\<close>

theorem postAppointment_double_booking_guard:
  assumes "req_date req = Some d" and "req_time req = Some t"
  shows
    "(isTimeSlotBooked (appointmentsTable db) d t \<longrightarrow>
        code (fst (postAppointment db flt newId stamp req)) \<noteq> 201 \<and>
        snd (postAppointment db flt newId stamp req) = db \<and>
        (customerOk req \<and> fieldsOk req \<and> dayOpen db flt d \<and> bookingCheckFault flt = None \<longrightarrow>
           fst (postAppointment db flt newId stamp req) =
             \<lparr>code = 400, body = ErrorBody ''This time slot is already booked'' None\<rparr>)) \<and>
     ((\<forall>r \<in> set (appointmentsTable db).
          date r = d \<and> time r = t \<longrightarrow> status r = ''declined'' \<or> status r = ''cancelled'') \<and>
      customerOk req \<and> fieldsOk req \<and> dayOpen db flt d \<and>
      bookingCheckFault flt = None \<and> insertFault flt = None \<longrightarrow>
        code (fst (postAppointment db flt newId stamp req)) = 201 \<and>
        (\<exists>row. appointmentsTable (snd (postAppointment db flt newId stamp req)) =
                 appointmentsTable db @ [row] \<and>
               date row = d \<and> time row = t \<and> status row = ''pending'')) \<and>
     (noDoubleBooking (appointmentsTable db) \<longrightarrow>
        noDoubleBooking (appointmentsTable (snd (postAppointment db flt newId stamp req))))"
proof (intro conjI impI)
  assume b: "isTimeSlotBooked (appointmentsTable db) d t"
  with assms show n: "code (fst (postAppointment db flt newId stamp req)) \<noteq> 201"
    by (simp add: postAppointment_created_iff str_def)
  then show "snd (postAppointment db flt newId stamp req) = db"
    by (rule postAppointment_not_created)
next
  assume b: "isTimeSlotBooked (appointmentsTable db) d t"
    and h: "customerOk req \<and> fieldsOk req \<and> dayOpen db flt d \<and> bookingCheckFault flt = None"
  from h postAppointment_valid [of req db flt newId stamp] obtain c where
    p: "postAppointment db flt newId stamp req = checkDate db flt newId stamp c req"
    by blast
  from assms b h show "fst (postAppointment db flt newId stamp req) =
      \<lparr>code = 400, body = ErrorBody ''This time slot is already booked'' None\<rparr>"
    by (simp add: p checkDate_open bookSlot_taken str_def)
next
  assume h: "(\<forall>r \<in> set (appointmentsTable db).
          date r = d \<and> time r = t \<longrightarrow> status r = ''declined'' \<or> status r = ''cancelled'') \<and>
      customerOk req \<and> fieldsOk req \<and> dayOpen db flt d \<and>
      bookingCheckFault flt = None \<and> insertFault flt = None"
  then have free: "\<not> isTimeSlotBooked (appointmentsTable db) d t"
    by (auto simp: isTimeSlotBooked_iff)
  with h assms show c201: "code (fst (postAppointment db flt newId stamp req)) = 201"
    by (simp add: postAppointment_created_iff str_def)
  from postAppointment_created [OF c201] obtain c where
    "snd (postAppointment db flt newId stamp req) =
       db\<lparr>appointmentsTable := appointmentsTable db @ [appointmentData newId stamp c req]\<rparr>"
    by auto
  with assms show "\<exists>row. appointmentsTable (snd (postAppointment db flt newId stamp req)) =
                 appointmentsTable db @ [row] \<and>
               date row = d \<and> time row = t \<and> status row = ''pending''"
    by (simp add: appointmentData_slot str_def)
next
  assume "noDoubleBooking (appointmentsTable db)"
  then show "noDoubleBooking (appointmentsTable (snd (postAppointment db flt newId stamp req)))"
    by (rule postAppointment_keeps_invariant)
qed

theorem postAppointment_double_booking_guard_witness:
  "isTimeSlotBooked (appointmentsTable demoDb) ''2025-06-10'' ''09:00'' \<and>
   fst (postAppointment demoDb noFaults ''a3'' ''2025-06-02T08:00:00Z''
          (demoRequest (Some demoCustomer) ''2025-06-10'' ''09:00'')) =
     \<lparr>code = 400, body = ErrorBody ''This time slot is already booked'' None\<rparr> \<and>
   snd (postAppointment demoDb noFaults ''a3'' ''2025-06-02T08:00:00Z''
          (demoRequest (Some demoCustomer) ''2025-06-10'' ''09:00'')) = demoDb \<and>
   map status (filter (\<lambda>r. date r = ''2025-06-10'' \<and> time r = ''09:45'')
                 (appointmentsTable demoDb)) = [''declined''] \<and>
   code (fst (postAppointment demoDb noFaults ''a3'' ''2025-06-02T08:00:00Z''
          (demoRequest (Some demoCustomer) ''2025-06-10'' ''09:45''))) = 201 \<and>
   noDoubleBooking (appointmentsTable demoDb) \<and>
   noDoubleBooking (appointmentsTable
     (snd (postAppointment demoDb noFaults ''a3'' ''2025-06-02T08:00:00Z''
          (demoRequest (Some demoCustomer) ''2025-06-10'' ''09:45''))))"
proof -
  let ?reqA = "demoRequest (Some demoCustomer) ''2025-06-10'' ''09:00''"
  let ?reqB = "demoRequest (Some demoCustomer) ''2025-06-10'' ''09:45''"
  have dA: "req_date ?reqA = Some ''2025-06-10''" and tA: "req_time ?reqA = Some ''09:00''"
    and dB: "req_date ?reqB = Some ''2025-06-10''" and tB: "req_time ?reqB = Some ''09:45''"
    by (simp_all add: demoRequest_def)
  have booked: "isTimeSlotBooked (appointmentsTable demoDb) ''2025-06-10'' ''09:00''"
    by (simp add: isTimeSlotBooked_def demoDb_def demoRow_def)
  have free: "\<forall>r \<in> set (appointmentsTable demoDb).
      date r = ''2025-06-10'' \<and> time r = ''09:45'' \<longrightarrow>
      status r = ''declined'' \<or> status r = ''cancelled''"
    by (simp add: demoDb_def demoRow_def)
  have okA: "customerOk ?reqA" "fieldsOk ?reqA" and okB: "customerOk ?reqB" "fieldsOk ?reqB"
    by (simp_all add: customerOk_def fieldsOk_def falsy_def demoRequest_def demoCustomer_def)
  have opn: "dayOpen demoDb noFaults ''2025-06-10''"
    by (simp add: dayOpen_def availabilityFor_def single_def demoDb_def noFaults_def)
  have nf: "bookingCheckFault noFaults = None" "insertFault noFaults = None"
    by (simp_all add: noFaults_def)
  have inv: "noDoubleBooking (appointmentsTable demoDb)"
    by (simp add: noDoubleBooking_def demoDb_def demoRow_def)
  have occ: "map status (filter (\<lambda>r. date r = ''2025-06-10'' \<and> time r = ''09:45'')
                           (appointmentsTable demoDb)) = [''declined'']"
    by (simp add: demoDb_def demoRow_def)
  from postAppointment_double_booking_guard
         [OF dA tA, of demoDb noFaults "''a3''" "''2025-06-02T08:00:00Z''"]
       postAppointment_double_booking_guard
         [OF dB tB, of demoDb noFaults "''a3''" "''2025-06-02T08:00:00Z''"]
       booked free okA okB opn nf inv occ
  show ?thesis by blast
qed

text \<open>
  Claim C3, as stated: a request for a time that is not among the day's slots is
  rejected. The handler reads the availability row only for its \<^verbatim>\<open>is_closed\<close> flag: a
  request for 10:00 on a date that offers 09:00 and 09:45 is answered 201.
\<close>

theorem postAppointment_time_not_offered_counterexample:
  "''10:00'' \<notin> set [''09:00'', ''09:45''] \<and>
   map time_ranges (availabilityTable demoDb) = [Some [''09:00'', ''09:45'']] \<and>
   code (fst (postAppointment demoDb noFaults ''a3'' ''2025-06-02T08:00:00Z''
                (demoRequest (Some demoCustomer) ''2025-06-10'' ''10:00''))) = 201 \<and>
   map time (appointmentsTable
     (snd (postAppointment demoDb noFaults ''a3'' ''2025-06-02T08:00:00Z''
                (demoRequest (Some demoCustomer) ''2025-06-10'' ''10:00''))))
     = [''09:00'', ''09:45'', ''10:00'']"
  by (simp add: postAppointment_def checkDate_def bookSlot_def insertAppointment_def
        appointmentData_def availabilityFor_def existingBookingsFor_def single_def
        falsy_def str_def demoDb_def demoRow_def demoRequest_def demoCustomer_def noFaults_def)

text \<open>
  Claim C3, amended. The handler does not compare the requested time with the day's
  slots: a request for a time that the date does not offer, which passes the handler's
  checks (required fields present, one availability row for the date and not closed, no
  pending or accepted appointment at that date and time, no database error), is
  answered 201 and a pending appointment at that time is created.
\<close>

theorem postAppointment_time_not_offered_created:
  assumes "customerOk req" and "fieldsOk req"
    and "req_date req = Some d" and "req_time req = Some t"
    and "availabilityFor db flt d = (Some av, None)" and "is_closed av \<noteq> Some True"
    and "t \<notin> set (or_empty (time_ranges av))"
    and "\<not> isTimeSlotBooked (appointmentsTable db) d t"
    and "bookingCheckFault flt = None" and "insertFault flt = None"
  shows "code (fst (postAppointment db flt newId stamp req)) = 201 \<and>
         (\<exists>row. appointmentsTable (snd (postAppointment db flt newId stamp req)) =
                  appointmentsTable db @ [row] \<and>
                date row = d \<and> time row = t \<and> status row = ''pending'')"
proof -
  from assms(5,6) have opn: "dayOpen db flt d" by (simp add: dayOpen_def)
  with assms have c201: "code (fst (postAppointment db flt newId stamp req)) = 201"
    by (simp add: postAppointment_created_iff str_def)
  from postAppointment_created [OF c201] obtain c where
    "snd (postAppointment db flt newId stamp req) =
       db\<lparr>appointmentsTable := appointmentsTable db @ [appointmentData newId stamp c req]\<rparr>"
    by auto
  with assms(3,4) c201 show ?thesis
    by (simp add: appointmentData_slot str_def)
qed

theorem postAppointment_time_not_offered_created_witness:
  "customerOk (demoRequest (Some demoCustomer) ''2025-06-10'' ''10:00'') \<and>
   fieldsOk (demoRequest (Some demoCustomer) ''2025-06-10'' ''10:00'') \<and>
   availabilityFor demoDb noFaults ''2025-06-10'' =
     (Some \<lparr>av_date = ''2025-06-10'', time_ranges = Some [''09:00'', ''09:45''],
             is_closed = Some False\<rparr>, None) \<and>
   ''10:00'' \<notin> set [''09:00'', ''09:45''] \<and>
   \<not> isTimeSlotBooked (appointmentsTable demoDb) ''2025-06-10'' ''10:00'' \<and>
   code (fst (postAppointment demoDb noFaults ''a3'' ''2025-06-02T08:00:00Z''
                (demoRequest (Some demoCustomer) ''2025-06-10'' ''10:00''))) = 201 \<and>
   (\<exists>row. appointmentsTable
            (snd (postAppointment demoDb noFaults ''a3'' ''2025-06-02T08:00:00Z''
                    (demoRequest (Some demoCustomer) ''2025-06-10'' ''10:00''))) =
            appointmentsTable demoDb @ [row] \<and>
          date row = ''2025-06-10'' \<and> time row = ''10:00'' \<and> status row = ''pending'')"
proof -
  let ?req = "demoRequest (Some demoCustomer) ''2025-06-10'' ''10:00''"
  let ?av = "\<lparr>av_date = ''2025-06-10'', time_ranges = Some [''09:00'', ''09:45''],
              is_closed = Some False\<rparr>"
  have ok: "customerOk ?req" "fieldsOk ?req"
    by (simp_all add: customerOk_def fieldsOk_def falsy_def demoRequest_def demoCustomer_def)
  have dt: "req_date ?req = Some ''2025-06-10''" "req_time ?req = Some ''10:00''"
    by (simp_all add: demoRequest_def)
  have av: "availabilityFor demoDb noFaults ''2025-06-10'' = (Some ?av, None)"
    by (simp add: availabilityFor_def single_def demoDb_def noFaults_def)
  have op: "is_closed ?av \<noteq> Some True" by simp
  have notin: "''10:00'' \<notin> set (or_empty (time_ranges ?av))"
    by (simp add: or_empty_def)
  have free: "\<not> isTimeSlotBooked (appointmentsTable demoDb) ''2025-06-10'' ''10:00''"
    by (simp add: isTimeSlotBooked_def demoDb_def demoRow_def)
  have nf: "bookingCheckFault noFaults = None" "insertFault noFaults = None"
    by (simp_all add: noFaults_def)
  from postAppointment_time_not_offered_created
         [OF ok dt av op notin free nf, of "''a3''" "''2025-06-02T08:00:00Z''"]
       ok av free
  show ?thesis by simp
qed

text \<open>
  Claim C4, as stated: the date is checked before the customer fields, so a request with
  an unavailable date and empty customer fields is rejected for its date. The handler
  validates the required fields first: on a date without availability row, empty
  customer fields give "Customer information is required".
\<close>

theorem postAppointment_order_counterexample:
  "\<not> dayOpen demoDb noFaults ''2025-07-01'' \<and>
   postAppointment demoDb noFaults ''a3'' ''2025-06-02T08:00:00Z''
     (demoRequest (Some \<lparr>name = Some [], email = Some [], phone = Some []\<rparr>)
        ''2025-07-01'' ''09:00'') =
     (\<lparr>code = 400, body = ErrorBody ''Customer information is required'' None\<rparr>, demoDb)"
  by (simp add: postAppointment_def dayOpen_def availabilityFor_def single_def falsy_def
        demoDb_def demoRequest_def noFaults_def)

text \<open>
  Claim C4, amended. The handler checks, in this order and stopping at the first
  failure: (1) the customer and its name, email and phone are present and non-empty,
  (2) service, date and time are present and non-empty, (3) the date has one
  availability row and it is not closed, (4) no pending or accepted appointment holds
  the date and time. It has no check that the time is among the date's slots. A request
  with empty customer fields is rejected for its customer fields whatever the date is.
\<close>

theorem postAppointment_check_order:
  "(\<not> customerOk req \<longrightarrow>
      postAppointment db flt newId stamp req =
        (\<lparr>code = 400, body = ErrorBody ''Customer information is required'' None\<rparr>, db)) \<and>
   (customerOk req \<and> \<not> fieldsOk req \<longrightarrow>
      postAppointment db flt newId stamp req =
        (\<lparr>code = 400, body = ErrorBody ''Service, date, and time are required'' None\<rparr>, db)) \<and>
   (customerOk req \<and> fieldsOk req \<and> \<not> dayOpen db flt (str (req_date req)) \<longrightarrow>
      snd (postAppointment db flt newId stamp req) = db \<and>
      (\<exists>msg. fst (postAppointment db flt newId stamp req) =
                \<lparr>code = 400, body = ErrorBody msg None\<rparr> \<and> take 10 msg = ''This date '')) \<and>
   (customerOk req \<and> fieldsOk req \<and> dayOpen db flt (str (req_date req)) \<and>
    bookingCheckFault flt = None \<and>
    isTimeSlotBooked (appointmentsTable db) (str (req_date req)) (str (req_time req)) \<longrightarrow>
      postAppointment db flt newId stamp req =
        (\<lparr>code = 400, body = ErrorBody ''This time slot is already booked'' None\<rparr>, db)) \<and>
   (customerOk req \<and> fieldsOk req \<and> dayOpen db flt (str (req_date req)) \<and>
    bookingCheckFault flt = None \<and>
    \<not> isTimeSlotBooked (appointmentsTable db) (str (req_date req)) (str (req_time req)) \<and>
    insertFault flt = None \<longrightarrow>
      code (fst (postAppointment db flt newId stamp req)) = 201)"
proof (intro conjI impI)
  assume "\<not> customerOk req"
  then show "postAppointment db flt newId stamp req =
        (\<lparr>code = 400, body = ErrorBody ''Customer information is required'' None\<rparr>, db)"
    by (rule postAppointment_invalid_customer)
next
  assume "customerOk req \<and> \<not> fieldsOk req"
  then show "postAppointment db flt newId stamp req =
        (\<lparr>code = 400, body = ErrorBody ''Service, date, and time are required'' None\<rparr>, db)"
    by (simp add: postAppointment_missing_fields)
next
  assume h: "customerOk req \<and> fieldsOk req \<and> \<not> dayOpen db flt (str (req_date req))"
  with postAppointment_valid [of req db flt newId stamp] obtain c where
    p: "postAppointment db flt newId stamp req = checkDate db flt newId stamp c req"
    by blast
  from h checkDate_not_open [of db flt req newId stamp c]
  show "snd (postAppointment db flt newId stamp req) = db"
    and "\<exists>msg. fst (postAppointment db flt newId stamp req) =
                \<lparr>code = 400, body = ErrorBody msg None\<rparr> \<and> take 10 msg = ''This date ''"
    unfolding p by blast+
next
  assume h: "customerOk req \<and> fieldsOk req \<and> dayOpen db flt (str (req_date req)) \<and>
    bookingCheckFault flt = None \<and>
    isTimeSlotBooked (appointmentsTable db) (str (req_date req)) (str (req_time req))"
  with postAppointment_valid [of req db flt newId stamp] obtain c where
    p: "postAppointment db flt newId stamp req = checkDate db flt newId stamp c req"
    by blast
  from h show "postAppointment db flt newId stamp req =
        (\<lparr>code = 400, body = ErrorBody ''This time slot is already booked'' None\<rparr>, db)"
    by (simp add: p checkDate_open bookSlot_taken)
next
  assume "customerOk req \<and> fieldsOk req \<and> dayOpen db flt (str (req_date req)) \<and>
    bookingCheckFault flt = None \<and>
    \<not> isTimeSlotBooked (appointmentsTable db) (str (req_date req)) (str (req_time req)) \<and>
    insertFault flt = None"
  then show "code (fst (postAppointment db flt newId stamp req)) = 201"
    by (simp add: postAppointment_created_iff)
qed

theorem postAppointment_check_order_witness:
  "\<not> customerOk (demoRequest (Some \<lparr>name = Some [], email = Some [], phone = Some []\<rparr>)
                   ''2025-07-01'' ''09:00'') \<and>
   \<not> dayOpen demoDb noFaults ''2025-07-01'' \<and>
   postAppointment demoDb noFaults ''a3'' ''2025-06-02T08:00:00Z''
     (demoRequest (Some \<lparr>name = Some [], email = Some [], phone = Some []\<rparr>)
        ''2025-07-01'' ''09:00'') =
     (\<lparr>code = 400, body = ErrorBody ''Customer information is required'' None\<rparr>, demoDb) \<and>
   customerOk (demoRequest (Some demoCustomer) ''2025-07-01'' ''09:00'') \<and>
   fieldsOk (demoRequest (Some demoCustomer) ''2025-07-01'' ''09:00'') \<and>
   code (fst (postAppointment demoDb noFaults ''a3'' ''2025-06-02T08:00:00Z''
                (demoRequest (Some demoCustomer) ''2025-07-01'' ''09:00''))) = 400 \<and>
   dayOpen demoDb noFaults ''2025-06-10'' \<and>
   isTimeSlotBooked (appointmentsTable demoDb) ''2025-06-10'' ''09:00'' \<and>
   postAppointment demoDb noFaults ''a3'' ''2025-06-02T08:00:00Z''
     (demoRequest (Some demoCustomer) ''2025-06-10'' ''09:00'') =
     (\<lparr>code = 400, body = ErrorBody ''This time slot is already booked'' None\<rparr>, demoDb) \<and>
   \<not> isTimeSlotBooked (appointmentsTable demoDb) ''2025-06-10'' ''09:45'' \<and>
   code (fst (postAppointment demoDb noFaults ''a3'' ''2025-06-02T08:00:00Z''
                (demoRequest (Some demoCustomer) ''2025-06-10'' ''09:45''))) = 201"
proof -
  let ?bad = "demoRequest (Some \<lparr>name = Some [], email = Some [], phone = Some []\<rparr>)
                ''2025-07-01'' ''09:00''"
  let ?r1 = "demoRequest (Some demoCustomer) ''2025-07-01'' ''09:00''"
  let ?r2 = "demoRequest (Some demoCustomer) ''2025-06-10'' ''09:00''"
  let ?r3 = "demoRequest (Some demoCustomer) ''2025-06-10'' ''09:45''"
  have bad: "\<not> customerOk ?bad"
    by (simp add: customerOk_def falsy_def demoRequest_def)
  have ok: "customerOk ?r1" "fieldsOk ?r1" "customerOk ?r2" "fieldsOk ?r2"
    "customerOk ?r3" "fieldsOk ?r3"
    by (simp_all add: customerOk_def fieldsOk_def falsy_def demoRequest_def demoCustomer_def)
  have s: "str (req_date ?r1) = ''2025-07-01''" "str (req_date ?r2) = ''2025-06-10''"
    "str (req_time ?r2) = ''09:00''" "str (req_date ?r3) = ''2025-06-10''"
    "str (req_time ?r3) = ''09:45''"
    by (simp_all add: str_def demoRequest_def)
  have nopen: "\<not> dayOpen demoDb noFaults ''2025-07-01''"
    by (simp add: dayOpen_def availabilityFor_def single_def demoDb_def noFaults_def)
  have opn: "dayOpen demoDb noFaults ''2025-06-10''"
    by (simp add: dayOpen_def availabilityFor_def single_def demoDb_def noFaults_def)
  have booked: "isTimeSlotBooked (appointmentsTable demoDb) ''2025-06-10'' ''09:00''"
    and free: "\<not> isTimeSlotBooked (appointmentsTable demoDb) ''2025-06-10'' ''09:45''"
    by (simp_all add: isTimeSlotBooked_def demoDb_def demoRow_def)
  have nf: "bookingCheckFault noFaults = None" "insertFault noFaults = None"
    by (simp_all add: noFaults_def)
  note t = postAppointment_check_order [of _ demoDb noFaults "''a3''" "''2025-06-02T08:00:00Z''"]
  from t [of ?bad] bad have 1: "postAppointment demoDb noFaults ''a3'' ''2025-06-02T08:00:00Z'' ?bad =
     (\<lparr>code = 400, body = ErrorBody ''Customer information is required'' None\<rparr>, demoDb)"
    by blast
  from t [of ?r1] ok nopen s obtain msg where
    "fst (postAppointment demoDb noFaults ''a3'' ''2025-06-02T08:00:00Z'' ?r1) =
       \<lparr>code = 400, body = ErrorBody msg None\<rparr>"
    by auto
  then have 2: "code (fst (postAppointment demoDb noFaults ''a3'' ''2025-06-02T08:00:00Z'' ?r1)) = 400"
    by simp
  from t [of ?r2] ok opn booked nf s have 3:
    "postAppointment demoDb noFaults ''a3'' ''2025-06-02T08:00:00Z'' ?r2 =
     (\<lparr>code = 400, body = ErrorBody ''This time slot is already booked'' None\<rparr>, demoDb)"
    by simp
  from t [of ?r3] ok opn free nf s have 4:
    "code (fst (postAppointment demoDb noFaults ''a3'' ''2025-06-02T08:00:00Z'' ?r3)) = 201"
    by simp
  from bad nopen 1 ok 2 opn booked 3 free 4 show ?thesis by blast
qed

lemma toFrontend_status: "status (toFrontend row) = status row"
  by (simp add: toFrontend_def)

text \<open>
  Claim C9. A response of \<^verbatim>\<open>POST /api/appointments\<close> that carries an appointment has
  code 201, and on code 201 the response carries the new row, whose status is pending,
  in the table and in the response alike; a \<^verbatim>\<open>status\<close> in the request body changes
  nothing.
\<close>

theorem postAppointment_created_pending:
  "(\<forall>apt. body (fst (postAppointment db flt newId stamp req)) = AppointmentBody apt \<longrightarrow>
       code (fst (postAppointment db flt newId stamp req)) = 201) \<and>
   (code (fst (postAppointment db flt newId stamp req)) = 201 \<longrightarrow>
      (\<exists>row. fst (postAppointment db flt newId stamp req) =
                \<lparr>code = 201, body = AppointmentBody (toFrontend row)\<rparr> \<and>
              appointmentsTable (snd (postAppointment db flt newId stamp req)) =
                appointmentsTable db @ [row] \<and>
              status row = ''pending'' \<and> status (toFrontend row) = ''pending'')) \<and>
   postAppointment db flt newId stamp (req\<lparr>req_status := s\<rparr>) =
     postAppointment db flt newId stamp req"
proof (intro conjI allI impI)
  fix apt
  assume b: "body (fst (postAppointment db flt newId stamp req)) = AppointmentBody apt"
  show "code (fst (postAppointment db flt newId stamp req)) = 201"
  proof (rule ccontr)
    assume "code (fst (postAppointment db flt newId stamp req)) \<noteq> 201"
    from postAppointment_rejected [OF this] b show False by auto
  qed
next
  assume c: "code (fst (postAppointment db flt newId stamp req)) = 201"
  from postAppointment_created [OF c] obtain cu where
    p: "postAppointment db flt newId stamp req =
          (\<lparr>code = 201,
            body = AppointmentBody (toFrontend (appointmentData newId stamp cu req))\<rparr>,
           db\<lparr>appointmentsTable := appointmentsTable db @ [appointmentData newId stamp cu req]\<rparr>)"
    by blast
  show "\<exists>row. fst (postAppointment db flt newId stamp req) =
                \<lparr>code = 201, body = AppointmentBody (toFrontend row)\<rparr> \<and>
              appointmentsTable (snd (postAppointment db flt newId stamp req)) =
                appointmentsTable db @ [row] \<and>
              status row = ''pending'' \<and> status (toFrontend row) = ''pending''"
    unfolding p
    by (rule exI [of _ "appointmentData newId stamp cu req"])
       (simp add: appointmentData_slot toFrontend_status)
next
  show "postAppointment db flt newId stamp (req\<lparr>req_status := s\<rparr>) =
     postAppointment db flt newId stamp req"
    by (rule postAppointment_ignores_status)
qed

theorem postAppointment_created_pending_witness:
  "req_status (demoRequest (Some demoCustomer) ''2025-06-10'' ''09:45'') = Some ''accepted'' \<and>
   code (fst (postAppointment demoDb noFaults ''a3'' ''2025-06-02T08:00:00Z''
                (demoRequest (Some demoCustomer) ''2025-06-10'' ''09:45''))) = 201 \<and>
   (\<exists>row. fst (postAppointment demoDb noFaults ''a3'' ''2025-06-02T08:00:00Z''
                  (demoRequest (Some demoCustomer) ''2025-06-10'' ''09:45'')) =
            \<lparr>code = 201, body = AppointmentBody (toFrontend row)\<rparr> \<and>
          status row = ''pending'' \<and> status (toFrontend row) = ''pending'')"
proof -
  let ?req = "demoRequest (Some demoCustomer) ''2025-06-10'' ''09:45''"
  have st: "req_status ?req = Some ''accepted''"
    by (simp add: demoRequest_def)
  have c: "code (fst (postAppointment demoDb noFaults ''a3'' ''2025-06-02T08:00:00Z'' ?req)) = 201"
    by (simp add: postAppointment_def checkDate_def bookSlot_def insertAppointment_def
        availabilityFor_def existingBookingsFor_def single_def
        falsy_def str_def demoDb_def demoRow_def demoRequest_def demoCustomer_def noFaults_def)
  from postAppointment_created_pending
         [of demoDb noFaults "''a3''" "''2025-06-02T08:00:00Z''" ?req] c st
  show ?thesis by blast
qed

section \<open>Properties of the status update\<close>

lemma applyUpdate_id: "row_id (applyUpdate upd stamp r) = row_id r"
  by (simp add: applyUpdate_def)

lemma filter_updated:
  "filter (\<lambda>r. row_id r = i)
     (map (\<lambda>r. if row_id r = i then applyUpdate upd stamp r else r) rows) =
   map (applyUpdate upd stamp) (filter (\<lambda>r. row_id r = i) rows)"
  by (induction rows) (simp_all add: applyUpdate_id)

lemma patchAppointment_unique:
  assumes "appointmentId \<noteq> []"
    and "filter (\<lambda>r. row_id r = appointmentId) (appointmentsTable db) = [r]"
  shows "patchAppointment db None stamp appointmentId upd =
           (\<lparr>code = 200, body = AppointmentBody (toFrontend (applyUpdate upd stamp r))\<rparr>,
            db\<lparr>appointmentsTable :=
                 map (\<lambda>r. if row_id r = appointmentId then applyUpdate upd stamp r else r)
                   (appointmentsTable db)\<rparr>)"
  using assms
  by (simp add: patchAppointment_def Let_def filter_updated single_def)

text \<open>
  Claim C5, as stated: after pending to cancelled, a transition to accepted is rejected
  and the appointment stays as it was. The handler has no such check: the second update
  is answered 200 and the row is accepted.
\<close>

theorem patchAppointment_cancelled_accepted_counterexample:
  "map status (appointmentsTable
     (snd (patchAppointment demoDb None ''2025-06-03T08:00:00Z'' ''a1''
             \<lparr>upd_status = Some ''cancelled'', upd_date = None, upd_time = None,
               upd_include_in_analytics = None\<rparr>))) = [''cancelled'', ''declined''] \<and>
   code (fst (patchAppointment
     (snd (patchAppointment demoDb None ''2025-06-03T08:00:00Z'' ''a1''
             \<lparr>upd_status = Some ''cancelled'', upd_date = None, upd_time = None,
               upd_include_in_analytics = None\<rparr>))
     None ''2025-06-03T09:00:00Z'' ''a1''
     \<lparr>upd_status = Some ''accepted'', upd_date = None, upd_time = None,
       upd_include_in_analytics = None\<rparr>)) = 200 \<and>
   map status (appointmentsTable (snd (patchAppointment
     (snd (patchAppointment demoDb None ''2025-06-03T08:00:00Z'' ''a1''
             \<lparr>upd_status = Some ''cancelled'', upd_date = None, upd_time = None,
               upd_include_in_analytics = None\<rparr>))
     None ''2025-06-03T09:00:00Z'' ''a1''
     \<lparr>upd_status = Some ''accepted'', upd_date = None, upd_time = None,
       upd_include_in_analytics = None\<rparr>))) = [''accepted'', ''declined'']"
  by (simp add: patchAppointment_def Let_def single_def applyUpdate_def demoDb_def demoRow_def)

text \<open>
  Claim C5, amended. \<^verbatim>\<open>PATCH /api/appointments/:id\<close> has no transition check: for an id
  that one row carries (and an update query that goes through), an update to any
  status, from any status, is answered 200 with the appointment in the requested
  status, and the row is stored with that status.
\<close>

theorem patchAppointment_any_transition:
  assumes "appointmentId \<noteq> []"
    and "filter (\<lambda>r. row_id r = appointmentId) (appointmentsTable db) = [r]"
    and "upd_status upd = Some s"
  shows "\<exists>apt. fst (patchAppointment db None stamp appointmentId upd) =
                 \<lparr>code = 200, body = AppointmentBody apt\<rparr> \<and>
               status apt = s \<and> apt_id apt = appointmentId \<and>
               (\<forall>r' \<in> set (appointmentsTable
                               (snd (patchAppointment db None stamp appointmentId upd))).
                  row_id r' = appointmentId \<longrightarrow> status r' = s)"
proof -
  from assms(2) have "r \<in> set (filter (\<lambda>r. row_id r = appointmentId) (appointmentsTable db))"
    by simp
  then have rid: "row_id r = appointmentId" by simp
  have st: "status (applyUpdate upd stamp r) = s"
    using assms(3) by (simp add: applyUpdate_def)
  have aid: "apt_id (toFrontend (applyUpdate upd stamp r)) = appointmentId"
    using rid by (simp add: toFrontend_def applyUpdate_def)
  have upd: "\<And>x. status (applyUpdate upd stamp x) = s"
    using assms(3) by (simp add: applyUpdate_def)
  show ?thesis
    unfolding patchAppointment_unique [OF assms(1,2)]
    by (rule exI [of _ "toFrontend (applyUpdate upd stamp r)"])
       (auto simp: toFrontend_status st aid upd)
qed

theorem patchAppointment_any_transition_witness:
  "filter (\<lambda>r. row_id r = ''a2'') (appointmentsTable demoDb) =
     [demoRow ''a2'' ''09:45'' ''declined''] \<and>
   (\<exists>apt. fst (patchAppointment demoDb None ''2025-06-03T08:00:00Z'' ''a2''
                  \<lparr>upd_status = Some ''accepted'', upd_date = None, upd_time = None,
                    upd_include_in_analytics = None\<rparr>) =
             \<lparr>code = 200, body = AppointmentBody apt\<rparr> \<and>
           status apt = ''accepted'' \<and> apt_id apt = ''a2'')"
proof -
  let ?upd = "\<lparr>upd_status = Some ''accepted'', upd_date = None, upd_time = None,
               upd_include_in_analytics = None\<rparr>"
  have ne: "''a2'' \<noteq> []" by simp
  have f: "filter (\<lambda>r. row_id r = ''a2'') (appointmentsTable demoDb) =
             [demoRow ''a2'' ''09:45'' ''declined'']"
    by (simp add: demoDb_def demoRow_def)
  have u: "upd_status ?upd = Some ''accepted''" by simp
  from patchAppointment_any_transition [OF ne f u, of "''2025-06-03T08:00:00Z''"] f
  show ?thesis by blast
qed

section \<open>Properties of the appointment list\<close>

lemma of_char_digitChar: "(of_char (digitChar k) :: nat) = 48 + k mod 10"
proof -
  have "48 + k mod 10 < 256" using mod_less_divisor [of 10 k] by linarith
  then show ?thesis by (simp add: digitChar_def)
qed

lemma isDigit_digitChar: "isDigit (digitChar k)"
  by (simp add: isDigit_def less_eq_char_def of_char_digitChar)

lemma not_white_digitChar: "\<not> isWhiteSpace (digitChar k)"
proof -
  have "k mod 10 < 10" by simp
  then show ?thesis unfolding isWhiteSpace_def of_char_digitChar by auto
qed

lemma digitVal_digitChar: "digitVal (digitChar k) = int (k mod 10)"
  by (simp add: digitVal_def of_char_digitChar)

lemma digitChar_not_sep: "digitChar k \<noteq> CHR ''-''" "digitChar k \<noteq> CHR '':''"
proof -
  have "(of_char (digitChar k) :: nat) \<noteq> of_char CHR ''-''"
    "(of_char (digitChar k) :: nat) \<noteq> of_char CHR '':''"
    unfolding of_char_digitChar using mod_less_divisor [of 10 k] by simp_all
  then show "digitChar k \<noteq> CHR ''-''" "digitChar k \<noteq> CHR '':''" by auto
qed

lemma decimal2:
  fixes n :: nat
  assumes "n \<le> 99"
  shows "10 * (n div 10 mod 10) + n mod 10 = n"
proof -
  from assms have "n div 10 < 10" by simp
  then have "n div 10 mod 10 = n div 10" by simp
  then show ?thesis by simp
qed

lemma decimal4:
  fixes n :: nat
  assumes "n \<le> 9999"
  shows "10 * (10 * (10 * (n div 1000 mod 10) + n div 100 mod 10) + n div 10 mod 10) + n mod 10 = n"
proof -
  define q1 where "q1 = n div 10"
  define q2 where "q2 = q1 div 10"
  define q3 where "q3 = q2 div 10"
  have h2: "n div 100 = q2" and h3: "n div 1000 = q3"
    by (simp_all add: q1_def q2_def q3_def div_mult2_eq [symmetric])
  from assms h3 have "q3 < 10" by simp
  then have a: "q3 mod 10 = q3" by simp
  have c: "10 * q3 + q2 mod 10 = q2" by (simp add: q3_def)
  have d: "10 * q2 + q1 mod 10 = q1" by (simp add: q2_def)
  have e: "10 * q1 + n mod 10 = n" by (simp add: q1_def)
  have "10 * (10 * (10 * (q3 mod 10) + q2 mod 10) + q1 mod 10) + n mod 10 = n"
    unfolding a c d by (rule e)
  then show ?thesis by (simp only: h2 h3 q1_def [symmetric])
qed

lemma value_pad2:
  "foldl (\<lambda>acc c. 10 * acc + digitVal c) 0 (pad2 n) = int (10 * (n div 10 mod 10) + n mod 10)"
  by (simp add: pad2_def digitVal_digitChar)

lemma value_pad4:
  "foldl (\<lambda>acc c. 10 * acc + digitVal c) 0 (pad4 n) =
     int (10 * (10 * (10 * (n div 1000 mod 10) + n div 100 mod 10) + n div 10 mod 10) + n mod 10)"
  by (simp add: pad4_def digitVal_digitChar)

lemma digitChar_eq:
  "c = digitChar k \<longleftrightarrow> (of_char c :: nat) = 48 + k mod 10"
  by (metis of_char_digitChar of_char_eq_iff)

lemma Number_pad2:
  assumes "n \<le> 99"
  shows "Number (pad2 n) = Num (int n)"
proof -
  have t: "trim (pad2 n) = pad2 n"
    by (simp add: trim_def pad2_def not_white_digitChar)
  have d: "list_all isDigit (pad2 n)"
    by (simp add: pad2_def isDigit_digitChar)
  have b: "int n \<le> 9007199254740992" using assms by simp
  show ?thesis
    unfolding Number_def t Let_def value_pad2 decimal2 [OF assms]
    using d b by simp
qed

lemma Number_pad4:
  assumes "n \<le> 9999"
  shows "Number (pad4 n) = Num (int n)"
proof -
  have t: "trim (pad4 n) = pad4 n"
    by (simp add: trim_def pad4_def not_white_digitChar)
  have d: "list_all isDigit (pad4 n)"
    by (simp add: pad4_def isDigit_digitChar)
  have b: "int n \<le> 9007199254740992" using assms by simp
  show ?thesis
    unfolding Number_def t Let_def value_pad4 decimal4 [OF assms]
    using d b by simp
qed

lemma split_dateString:
  "js_split CHR ''-'' (dateString y m d) = [pad4 y, pad2 m, pad2 d]"
  by (simp add: dateString_def pad4_def pad2_def digitChar_not_sep)

lemma split_timeString:
  "js_split CHR '':'' (timeString h mi) = [pad2 h, pad2 mi]"
  by (simp add: timeString_def pad2_def digitChar_not_sep)

lemma monthStart_bounds:
  assumes "0 \<le> mn" and "mn < 12"
  shows "0 \<le> monthStart mn \<and> monthStart mn \<le> 334"
proof -
  from assms have "mn = 0 \<or> mn = 1 \<or> mn = 2 \<or> mn = 3 \<or> mn = 4 \<or> mn = 5 \<or> mn = 6 \<or>
      mn = 7 \<or> mn = 8 \<or> mn = 9 \<or> mn = 10 \<or> mn = 11"
    by arith
  then show ?thesis
    by (elim disjE) (simp_all add: monthStart_def)
qed

lemma DayFromYear_bounds:
  assumes "0 \<le> y" and "y \<le> 20000"
  shows "- 1000000 \<le> DayFromYear y \<and> DayFromYear y \<le> 7000000"
proof -
  define a where "a = (y - 1969) div 4"
  define b where "b = (y - 1901) div 100"
  define c where "c = (y - 1601) div 400"
  define ra where "ra = (y - 1969) mod 4"
  define rb where "rb = (y - 1901) mod 100"
  define rc where "rc = (y - 1601) mod 400"
  have ea: "4 * a + ra = y - 1969" by (simp add: a_def ra_def)
  have eb: "100 * b + rb = y - 1901" by (simp add: b_def rb_def)
  have ec: "400 * c + rc = y - 1601" by (simp add: c_def rc_def)
  have r: "0 \<le> ra" "ra < 4" "0 \<le> rb" "rb < 100" "0 \<le> rc" "rc < 400"
    by (simp_all add: ra_def rb_def rc_def)
  have "DayFromYear y = 365 * y - 719050 + a - b + c"
    by (simp add: DayFromYear_def a_def b_def c_def)
  with assms ea eb ec r have "- 1000000 \<le> DayFromYear y" and "DayFromYear y \<le> 7000000"
    by linarith+
  then show ?thesis by simp
qed

lemma MakeDay_bounds:
  assumes "100 \<le> y" and "y \<le> 9999" and "- 1 \<le> mo" and "mo \<le> 98" and "0 \<le> d" and "d \<le> 99"
  shows "- 1000001 \<le> MakeDay y mo d \<and> MakeDay y mo d \<le> 7001000"
proof -
  define q where "q = mo div 12"
  have eq: "12 * q + mo mod 12 = mo" by (simp add: q_def)
  have r: "0 \<le> mo mod 12" "mo mod 12 < 12" by simp_all
  from assms eq r have qb: "- 1 \<le> q" "q \<le> 9" by linarith+
  with assms have yb: "0 \<le> y + q" "y + q \<le> 20000" by linarith+
  note D = DayFromYear_bounds [OF yb]
  note M = monthStart_bounds [OF r]
  have "MakeDay y mo d =
          DayFromYear (y + q) + monthStart (mo mod 12)
          + (if InLeapYear (y + q) \<and> 2 \<le> mo mod 12 then 1 else 0) + d - 1"
    by (simp add: MakeDay_def Let_def q_def)
  with D M assms show ?thesis by (auto split: if_splits)
qed

lemma appointmentDate_formatted:
  assumes "date apt = dateString y m d" and "time apt = timeString h mi"
    and "100 \<le> y" and "y \<le> 9999" and "m \<le> 99" and "d \<le> 99" and "h \<le> 99" and "mi \<le> 99"
  shows "appointmentDate apt =
           DateAt (MakeDay (int y) (int m - 1) (int d) * 1440 + int h * 60 + int mi)"
proof -
  have B: "- 1000001 \<le> MakeDay (int y) (int m - 1) (int d)"
      "MakeDay (int y) (int m - 1) (int d) \<le> 7001000"
    using MakeDay_bounds [of "int y" "int m - 1" "int d"] assms by simp_all
  have w: "\<bar>MakeDay (int y) (int m - 1) (int d) * 1440 + int h * 60 + int mi\<bar> \<le> dateWindow"
    unfolding dateWindow_def using B assms(7,8) by linarith
  have q: "\<not> (0 \<le> int y \<and> int y \<le> 99)" using assms(3) by simp
  show ?thesis
    unfolding appointmentDate_def assms(1,2) split_dateString split_timeString
    using w q
    by (simp add: Let_def elem_def Number_pad2 Number_pad4 assms newDate_def minus1_def)
qed

lemma tomorrow_midnight:
  "setHours0 (setDatePlus1 (DateAt now)) = DateAt ((now div 1440 + 1) * 1440)"
proof -
  have "(now + 1440) div 1440 = now div 1440 + 1" by simp
  then show ?thesis by (simp add: setHours0_def setDatePlus1_def del: div_add_self2)
qed

lemma isPastAppointment_cases:
  "isPastAppointment now apt =
     (case appointmentDate apt of
        DateAt t \<Rightarrow> Some (t < (now div 1440 + 1) * 1440)
      | InvalidDate \<Rightarrow> Some False
      | BeyondDate \<Rightarrow> None)"
  by (cases "appointmentDate apt")
     (simp_all add: isPastAppointment_def tomorrow_midnight dateLess_def)

lemma same_day_before_tomorrow:
  fixes t now :: int
  assumes "t div 1440 = now div 1440"
  shows "t < (now div 1440 + 1) * 1440"
proof -
  have "t = (t div 1440) * 1440 + t mod 1440" by simp
  moreover have "t mod 1440 < 1440" by simp
  ultimately have "t < (t div 1440) * 1440 + 1440" by linarith
  with assms show ?thesis by (simp add: algebra_simps)
qed

lemma updateStats_drop_past:
  assumes "isPastAppointment now apt = Some True"
  shows "updateStats now (xs @ apt # ys) = updateStats now (xs @ ys)"
  using assms by (auto simp: updateStats_def)

lemma createAppointmentCard_past:
  assumes "isPastAppointment now apt = Some True"
  shows "createAppointmentCard now updating apt =
           Some \<lparr>buttonsDisabled = True, deleteDisabled = True, analyticsToggleDisabled = True,
                 acceptEnabled = False, declineEnabled = False\<rparr>"
  using assms by (simp add: createAppointmentCard_def)

text \<open>
  Claim C10. An appointment is past exactly when its local date and time lie before the
  midnight that starts tomorrow. For an appointment whose date is a \<^verbatim>\<open>YYYY-MM-DD\<close> string
  and whose time is an \<^verbatim>\<open>HH:MM\<close> string, that is the date and time the strings name. So an
  appointment whose date string names today's date is past at any time of day, even
  later than now: the statistics do not count it, its delete button and analytics
  toggle are disabled, and it has no accept or decline button.
\<close>

theorem isPastAppointment_today:
  "(\<forall>b. isPastAppointment now apt = Some b \<longrightarrow>
        (b \<longleftrightarrow> (\<exists>t. appointmentDate apt = DateAt t \<and> t < (now div 1440 + 1) * 1440))) \<and>
   (date apt = dateString y m d \<and> time apt = timeString h mi \<and>
    100 \<le> y \<and> y \<le> 9999 \<and> m \<le> 99 \<and> d \<le> 99 \<and> h \<le> 99 \<and> mi \<le> 99 \<longrightarrow>
      isPastAppointment now apt =
        Some (MakeDay (int y) (int m - 1) (int d) * 1440 + int h * 60 + int mi
                < (now div 1440 + 1) * 1440) \<and>
      (now div 1440 = MakeDay (int y) (int m - 1) (int d) \<and> h \<le> 23 \<and> mi \<le> 59 \<longrightarrow>
         isPastAppointment now apt = Some True \<and>
         updateStats now (xs @ apt # ys) = updateStats now (xs @ ys) \<and>
         createAppointmentCard now updating apt =
           Some \<lparr>buttonsDisabled = True, deleteDisabled = True,
                 analyticsToggleDisabled = True, acceptEnabled = False,
                 declineEnabled = False\<rparr>))"
proof (intro conjI allI impI)
  fix b
  assume "isPastAppointment now apt = Some b"
  then show "b \<longleftrightarrow> (\<exists>t. appointmentDate apt = DateAt t \<and> t < (now div 1440 + 1) * 1440)"
    by (cases "appointmentDate apt") (auto simp: isPastAppointment_cases)
next
  assume h: "date apt = dateString y m d \<and> time apt = timeString h mi \<and>
    100 \<le> y \<and> y \<le> 9999 \<and> m \<le> 99 \<and> d \<le> 99 \<and> h \<le> 99 \<and> mi \<le> 99"
  then have a: "appointmentDate apt =
      DateAt (MakeDay (int y) (int m - 1) (int d) * 1440 + int h * 60 + int mi)"
    by (intro appointmentDate_formatted) simp_all
  show p: "isPastAppointment now apt =
        Some (MakeDay (int y) (int m - 1) (int d) * 1440 + int h * 60 + int mi
                < (now div 1440 + 1) * 1440)"
    by (simp add: isPastAppointment_cases a)
  assume t: "now div 1440 = MakeDay (int y) (int m - 1) (int d) \<and> h \<le> 23 \<and> mi \<le> 59"
  define D where "D = MakeDay (int y) (int m - 1) (int d)"
  have "0 \<le> int h * 60 + int mi" "int h * 60 + int mi < 1440" using t by simp_all
  then have "(D * 1440 + (int h * 60 + int mi)) div 1440 = D"
    by (simp add: div_pos_pos_trivial)
  then have "(D * 1440 + int h * 60 + int mi) div 1440 = now div 1440"
    using t by (simp add: D_def add.assoc)
  then have "D * 1440 + int h * 60 + int mi < (now div 1440 + 1) * 1440"
    by (rule same_day_before_tomorrow)
  with p show past: "isPastAppointment now apt = Some True"
    by (simp add: D_def)
  then show "updateStats now (xs @ apt # ys) = updateStats now (xs @ ys)"
    by (rule updateStats_drop_past)
  from past show "createAppointmentCard now updating apt =
           Some \<lparr>buttonsDisabled = True, deleteDisabled = True,
                 analyticsToggleDisabled = True, acceptEnabled = False,
                 declineEnabled = False\<rparr>"
    by (rule createAppointmentCard_past)
qed

text \<open>
  The witness: now is 08:00 on 2025-06-10 (minute 29159040 = 20249 * 1440 + 480) and the
  appointment is at 23:30 on that day, still to come.
\<close>

theorem isPastAppointment_today_witness:
  "date (toFrontend (demoRow ''a1'' ''23:30'' ''pending'')) = dateString 2025 6 10 \<and>
   time (toFrontend (demoRow ''a1'' ''23:30'' ''pending'')) = timeString 23 30 \<and>
   (29159040 :: int) div 1440 = MakeDay 2025 5 10 \<and>
   (29159040 :: int) < MakeDay 2025 5 10 * 1440 + 23 * 60 + 30 \<and>
   isPastAppointment 29159040 (toFrontend (demoRow ''a1'' ''23:30'' ''pending'')) = Some True \<and>
   updateStats 29159040 [toFrontend (demoRow ''a1'' ''23:30'' ''pending'')] =
     Some \<lparr>pendingCount = 0, acceptedCount = 0, totalCount = 0\<rparr> \<and>
   createAppointmentCard 29159040 {} (toFrontend (demoRow ''a1'' ''23:30'' ''pending'')) =
     Some \<lparr>buttonsDisabled = True, deleteDisabled = True, analyticsToggleDisabled = True,
           acceptEnabled = False, declineEnabled = False\<rparr>"
proof -
  let ?apt = "toFrontend (demoRow ''a1'' ''23:30'' ''pending'')"
  have d: "date ?apt = dateString 2025 6 10"
    by (simp add: toFrontend_def demoRow_def dateString_def pad4_def pad2_def digitChar_eq)
  have t: "time ?apt = timeString 23 30"
    by (simp add: toFrontend_def demoRow_def timeString_def pad2_def digitChar_eq)
  have m: "MakeDay 2025 5 10 = 20249"
    by (simp add: MakeDay_def DayFromYear_def InLeapYear_def monthStart_def)
  have e: "(29159040 :: int) div 1440 = MakeDay 2025 5 10" unfolding m by simp
  have l: "(29159040 :: int) < MakeDay 2025 5 10 * 1440 + 23 * 60 + 30" unfolding m by simp
  have s: "updateStats 29159040 ([] @ ([] :: appointment list)) =
             Some \<lparr>pendingCount = 0, acceptedCount = 0, totalCount = 0\<rparr>"
    by (simp add: updateStats_def)
  have n: "int 2025 = 2025" "int 6 - 1 = 5" "int 10 = 10" by simp_all
  from isPastAppointment_today [of 29159040 ?apt 2025 6 10 23 30 "[]" "[]" "{}"]
  have "isPastAppointment 29159040 ?apt = Some True \<and>
        updateStats 29159040 ([] @ ?apt # []) =
          updateStats 29159040 ([] @ ([] :: appointment list)) \<and>
        createAppointmentCard 29159040 {} ?apt =
          Some \<lparr>buttonsDisabled = True, deleteDisabled = True, analyticsToggleDisabled = True,
                acceptEnabled = False, declineEnabled = False\<rparr>"
    using d t e by (simp add: n)
  with d t e l s show ?thesis by simp
qed

end
